theory Spec2Isabelle
  imports Main "HOL-Library.Word"
begin

section \<open>Inventory: drives, cartridges, pools\<close>

text \<open>
  The states of a cartridge (\<^verbatim>\<open>LTFSDMCartridge::TAPE_*\<close> in Scheduler.cc,
  \<^verbatim>\<open>OpenLTFSCartridge::*\<close> in MessageParser.cc).
\<close>

datatype cart_state =
  TAPE_INUSE | TAPE_MOUNTED | TAPE_MOVING | TAPE_UNMOUNTED | TAPE_INVALID | TAPE_UNKNOWN

text \<open>
  \<^verbatim>\<open>DataBase::operation\<close>: the enumerators the two source files name.
\<close>

datatype operation =
  TRARECALL | SELRECALL | MIGRATION | FORMAT | CHECK | MOUNT | MOVE | UNMOUNT

text \<open>
  Modelled from the spec: the integer values of the \<^verbatim>\<open>DataBase::operation\<close>
  enumerators (DataBase.h is not among the sources). The scheduler compares them with
  \<^verbatim>\<open><\<close> in \<^verbatim>\<open>tapeResAvail\<close>; the spec gives the priority order
  recall > migration > format/check > mount/move/unmount, a smaller value being the
  higher priority.
\<close>

fun opnum :: "operation \<Rightarrow> nat" where
  "opnum TRARECALL = 0"
| "opnum SELRECALL = 1"
| "opnum MIGRATION = 2"
| "opnum FORMAT = 3"
| "opnum CHECK = 4"
| "opnum MOUNT = 5"
| "opnum MOVE = 6"
| "opnum UNMOUNT = 7"

text \<open>\<^verbatim>\<open>TapeMover::operation\<close>.\<close>

datatype tm_operation = TM_MOUNT | TM_MOVE | TM_UNMOUNT

text \<open>
  A drive and a cartridge, with the attributes the two source files read or write.
  The capacities are \<^verbatim>\<open>unsigned long\<close> numbers of megabytes.
\<close>

record drive =
  d_id :: string
  d_devname :: string
  d_slot :: int
  d_status :: string
  busy :: bool
  moveReqNum :: int
  moveReqPool :: string
  toUnblock :: operation

record cartridge =
  c_id :: string
  c_slot :: int
  c_total_cap :: "64 word"
  c_remaining_cap :: "64 word"
  c_status :: string
  c_inProgress :: int
  c_pool :: string
  c_state :: cart_state
  requested :: bool

text \<open>
  The messages of the catalog that the modelled functions emit with \<^verbatim>\<open>MSG\<close>.
\<close>

datatype msgid =
  LTFSDMS0006E | LTFSDMS0007E | LTFSDMS0008E | LTFSDMS0009I | LTFSDMS0011E
| LTFSDMS0015E | LTFSDMS0019E | LTFSDMS0042I | LTFSDMS0043W | LTFSDMS0044E
| LTFSDMS0045E | LTFSDMS0055I | LTFSDMS0056I | LTFSDMS0057I | LTFSDMS0058I
| LTFSDMS0059I | LTFSDMS0060I | LTFSDMS0111I | LTFSDMS0112I | LTFSDMS0113I
| LTFSDMX0034E

datatype marg = Str string | Num int

text \<open>
  A task handed to \<^verbatim>\<open>subs.enqueue\<close> by the scheduler: its thread name
  and the \<^verbatim>\<open>TapeMover(driveId, tapeId, top)\<close> whose
  \<^verbatim>\<open>addRequest\<close> it runs.
\<close>

datatype task = TapeMoverAddRequest string string string tm_operation

text \<open>
  What ends a C++ function other than a return: the dereference of a null
  \<^verbatim>\<open>shared_ptr\<close>, and a failed \<^verbatim>\<open>assert\<close>.
\<close>

datatype fault = NullDeref | AssertFailed

section \<open>The scheduler's resource checks (Scheduler.cc)\<close>

text \<open>
  The members of the \<^verbatim>\<open>Scheduler\<close> object that the resource checks use, the
  inventory they reach through the global \<^verbatim>\<open>inventory\<close> pointer (drives and
  cartridges in iteration order), the pool configuration \<^verbatim>\<open>Server::conf\<close>
  (pool name and the tape names listed in it), the queue of enqueued tasks and the
  messages written.
\<close>

record sched =
  op :: operation
  reqNum :: int
  pool :: string
  tapeId :: string
  driveId :: string
  mountTarget :: tm_operation
  drives :: "drive list"
  carts :: "cartridge list"
  conf :: "(string \<times> string list) list"
  subs :: "task list"
  msgs :: "(msgid \<times> marg list) list"

text \<open>
  A setter called through a \<^verbatim>\<open>shared_ptr\<close> changes the object the lookup
  returned: the first element of the list that the lookup's test accepts.
\<close>

fun upd_first :: "('a \<Rightarrow> bool) \<Rightarrow> ('a \<Rightarrow> 'a) \<Rightarrow> 'a list \<Rightarrow> 'a list" where
  "upd_first P f [] = []"
| "upd_first P f (x # xs) = (if P x then f x # xs else x # upd_first P f xs)"

definition getCartridge :: "sched \<Rightarrow> string \<Rightarrow> cartridge option" where
  "getCartridge s t = find (\<lambda>c. c_id c = t) (carts s)"

definition getDrive :: "sched \<Rightarrow> string \<Rightarrow> drive option" where
  "getDrive s i = find (\<lambda>d. d_id d = i) (drives s)"

definition getPoolConf :: "sched \<Rightarrow> string \<Rightarrow> string list" where
  "getPoolConf s p = (case map_of (conf s) p of None \<Rightarrow> [] | Some ts \<Rightarrow> ts)"

text \<open>
  Modelled from the spec: \<^verbatim>\<open>Server::conf.poolRemove(pool, cartname)\<close> (the
  configuration class is not among the sources) takes the tape out of the pool's list.
\<close>

definition conf_poolRemove :: "string \<Rightarrow> string \<Rightarrow> sched \<Rightarrow> sched" where
  "conf_poolRemove p t s =
     s\<lparr>conf := map (\<lambda>(n, ts). if n = p then (n, removeAll t ts) else (n, ts)) (conf s)\<rparr>"

text \<open>
  Modelled from the spec: \<^verbatim>\<open>inventory->requestExists(reqNum, pool)\<close> (the
  inventory class is not among the sources) is true if some drive already has a pending
  motion for that request, that is, carries this request number and pool in its
  move-request fields.
\<close>

definition requestExists :: "sched \<Rightarrow> int \<Rightarrow> string \<Rightarrow> bool" where
  "requestExists s r p = list_ex (\<lambda>d. moveReqNum d = r \<and> moveReqPool d = p) (drives s)"

definition makeUse :: "string \<Rightarrow> string \<Rightarrow> sched \<Rightarrow> fault + sched" where
  "makeUse did tid s =
     (case getDrive s did of
        None \<Rightarrow> Inl NullDeref
      | Some _ \<Rightarrow>
          (case getCartridge s tid of
             None \<Rightarrow> Inl NullDeref
           | Some _ \<Rightarrow>
               Inr (s\<lparr>drives := upd_first (\<lambda>d. d_id d = did) (\<lambda>d. d\<lparr>busy := True\<rparr>) (drives s),
                      carts := upd_first (\<lambda>c. c_id c = tid)
                                 (\<lambda>c. c\<lparr>c_state := TAPE_INUSE\<rparr>) (carts s)\<rparr>)))"

text \<open>
  \<^verbatim>\<open>driveIsUsable\<close>; its first argument is \<^verbatim>\<open>Const::UNSET\<close>, whose
  declaration is not among the sources.
\<close>

definition driveIsUsable :: "int \<Rightarrow> sched \<Rightarrow> drive \<Rightarrow> bool" where
  "driveIsUsable unset s d =
     (if busy d then False
      else if moveReqNum d \<noteq> unset \<and> \<not> (moveReqNum d = reqNum s \<and> moveReqPool d = pool s)
      then False
      else True)"

definition moveTape :: "string \<Rightarrow> string \<Rightarrow> tm_operation \<Rightarrow> sched \<Rightarrow> fault + sched" where
  "moveTape did tid tmop s =
     (if op s = MOUNT \<or> op s = MOVE \<or> op s = UNMOUNT then Inr s
      else if requestExists s (reqNum s) (pool s) then Inr s
      else
        (let (opstr, m) =
               (case tmop of
                  TM_MOUNT \<Rightarrow> (''mnt.'', LTFSDMS0111I)
                | TM_MOVE \<Rightarrow> (''mov.'', LTFSDMS0112I)
                | TM_UNMOUNT \<Rightarrow> (''umn.'', LTFSDMS0113I))
         in case getDrive s did of
              None \<Rightarrow> Inl NullDeref
            | Some _ \<Rightarrow>
                Inr (s\<lparr>msgs := msgs s @ [(m, [Num (reqNum s), Str tid])],
                       drives := upd_first (\<lambda>d. d_id d = did)
                                   (\<lambda>d. d\<lparr>moveReqNum := reqNum s, moveReqPool := pool s\<rparr>)
                                   (drives s),
                       subs := subs s @ [TapeMoverAddRequest (opstr @ tid) did tid tmop]\<rparr>)))"

text \<open>
  The test both \<^verbatim>\<open>tapeResAvail\<close> and \<^verbatim>\<open>poolResAvail\<close> make for a
  drive: some cartridge of the inventory has the drive's slot and is mounted.
\<close>

definition mountedInSlot :: "sched \<Rightarrow> drive \<Rightarrow> cartridge option" where
  "mountedInSlot s d =
     find (\<lambda>card. d_slot d = c_slot card \<and> c_state card = TAPE_MOUNTED) (carts s)"

text \<open>
  The loop "looking for a free drive" of \<^verbatim>\<open>tapeResAvail\<close>: the first usable
  drive with no mounted cartridge in its slot, taken only when the requested cartridge
  \<open>c\<close> is unmounted.
\<close>

definition freeDrive :: "int \<Rightarrow> sched \<Rightarrow> cartridge \<Rightarrow> drive option" where
  "freeDrive unset s c =
     find (\<lambda>d. driveIsUsable unset s d \<and> mountedInSlot s d = None
               \<and> c_state c = TAPE_UNMOUNTED) (drives s)"

text \<open>
  The loops "looking for a tape to unmount": the first usable drive that has a mounted
  cartridge in its slot, with the first such cartridge.
\<close>

fun tapeToUnmount :: "int \<Rightarrow> sched \<Rightarrow> drive list \<Rightarrow> (drive \<times> cartridge) option" where
  "tapeToUnmount unset s [] = None"
| "tapeToUnmount unset s (d # ds) =
     (if \<not> driveIsUsable unset s d then tapeToUnmount unset s ds
      else case mountedInSlot s d of
             Some cart \<Rightarrow> Some (d, cart)
           | None \<Rightarrow> tapeToUnmount unset s ds)"

text \<open>
  The last loop of \<^verbatim>\<open>tapeResAvail\<close>, "suspend an operation": the first drive
  whose \<^verbatim>\<open>toUnblock\<close> is greater than the operation gets the operation as its
  \<^verbatim>\<open>toUnblock\<close> and the requested cartridge is marked as requested; the loop
  ends there.
\<close>

definition suspendOperation :: "sched \<Rightarrow> sched" where
  "suspendOperation s =
     (if list_ex (\<lambda>d. opnum (op s) < opnum (toUnblock d)) (drives s)
      then s\<lparr>drives := upd_first (\<lambda>d. opnum (op s) < opnum (toUnblock d))
                          (\<lambda>d. d\<lparr>toUnblock := op s\<rparr>) (drives s),
              carts := upd_first (\<lambda>c. c_id c = tapeId s)
                         (\<lambda>c. c\<lparr>requested := True\<rparr>) (carts s)\<rparr>
      else s)"

definition tapeResAvail :: "int \<Rightarrow> sched \<Rightarrow> fault + (bool \<times> sched)" where
  "tapeResAvail unset s =
     (if tapeId s = [] then Inl AssertFailed
      else case getCartridge s (tapeId s) of
        None \<Rightarrow> Inl NullDeref
      | Some c \<Rightarrow>
          if c_state c = TAPE_MOVING \<or> c_state c = TAPE_INUSE then Inr (False, s)
          else if c_state c = TAPE_MOUNTED then
            (case find (\<lambda>d. d_slot d = c_slot c) (drives s) of
               None \<Rightarrow> Inl AssertFailed
             | Some d \<Rightarrow>
                 if busy d then Inl AssertFailed
                 else (case makeUse (d_id d) (tapeId s) (s\<lparr>driveId := d_id d\<rparr>) of
                         Inl f \<Rightarrow> Inl f
                       | Inr s' \<Rightarrow> Inr (True, s')))
          else
            (case freeDrive unset s c of
               Some d \<Rightarrow>
                 (case moveTape (d_id d) (tapeId s) (mountTarget s) s of
                    Inl f \<Rightarrow> Inl f
                  | Inr s' \<Rightarrow> Inr (False, s'))
             | None \<Rightarrow>
                 (case tapeToUnmount unset s (drives s) of
                    Some (d, cart) \<Rightarrow>
                      (case moveTape (d_id d) (c_id cart) TM_UNMOUNT s of
                         Inl f \<Rightarrow> Inl f
                       | Inr s' \<Rightarrow>
                           Inr (False,
                                s'\<lparr>carts := upd_first (\<lambda>c. c_id c = tapeId s')
                                              (\<lambda>c. c\<lparr>requested := False\<rparr>) (carts s')\<rparr>))
                  | None \<Rightarrow>
                      if requested c then Inr (False, s)
                      else Inr (False, suspendOperation s))))"

text \<open>
  The capacity test of \<^verbatim>\<open>poolResAvail\<close>,
  \<^verbatim>\<open>1024 * 1024 * cart->get_le()->get_remaining_cap() >= minFileSize\<close>, in
  64-bit unsigned arithmetic.
\<close>

definition hasRoom :: "cartridge \<Rightarrow> 64 word \<Rightarrow> bool" where
  "hasRoom cart minFileSize = (minFileSize \<le> 1024 * 1024 * c_remaining_cap cart)"

text \<open>
  The first loop of \<^verbatim>\<open>poolResAvail\<close>, over the tape names of the pool. The
  result is \<^verbatim>\<open>found\<close> (the function returns true), the flag
  \<^verbatim>\<open>unmountedExists\<close> and the state. After the branch for a null handle the
  source goes on to \<^verbatim>\<open>cart->getState()\<close>.
\<close>

fun poolMounted :: "64 word \<Rightarrow> string list \<Rightarrow> bool \<Rightarrow> sched \<Rightarrow> fault + (bool \<times> bool \<times> sched)" where
  "poolMounted minFileSize [] unmountedExists s = Inr (False, unmountedExists, s)"
| "poolMounted minFileSize (cartname # rest) unmountedExists s =
     (case getCartridge s cartname of
        None \<Rightarrow>
          (let s1 = conf_poolRemove (pool s) cartname
                      (s\<lparr>msgs := msgs s @ [(LTFSDMX0034E, [Str cartname])]\<rparr>)
           in Inl NullDeref)
      | Some cart \<Rightarrow>
          if c_state cart = TAPE_MOUNTED then
            (let s1 = s\<lparr>tapeId := c_id cart\<rparr> in
             if hasRoom cart minFileSize then
               (case find (\<lambda>d. d_slot d = c_slot cart) (drives s1) of
                  None \<Rightarrow> Inl AssertFailed
                | Some d \<Rightarrow>
                    if busy d then Inl AssertFailed
                    else (case makeUse (d_id d) (tapeId s1) (s1\<lparr>driveId := d_id d\<rparr>) of
                            Inl f \<Rightarrow> Inl f
                          | Inr s2 \<Rightarrow> Inr (True, unmountedExists, s2)))
             else poolMounted minFileSize rest unmountedExists s1)
          else if c_state cart = TAPE_UNMOUNTED then poolMounted minFileSize rest True s
          else poolMounted minFileSize rest unmountedExists s)"

text \<open>
  The inner loop of the search for a tape to mount: the first tape name of the pool
  whose cartridge is unmounted and has room.
\<close>

fun tapeToMount :: "sched \<Rightarrow> 64 word \<Rightarrow> string list \<Rightarrow> fault + string option" where
  "tapeToMount s minFileSize [] = Inr None"
| "tapeToMount s minFileSize (cartname # rest) =
     (case getCartridge s cartname of
        None \<Rightarrow>
          (let s1 = conf_poolRemove (pool s) cartname
                      (s\<lparr>msgs := msgs s @ [(LTFSDMX0034E, [Str cartname])]\<rparr>)
           in Inl NullDeref)
      | Some cart \<Rightarrow>
          if c_state cart = TAPE_UNMOUNTED \<and> hasRoom cart minFileSize then Inr (Some cartname)
          else tapeToMount s minFileSize rest)"

text \<open>
  The loop "check if there is an empty drive to mount a tape". The result is whether
  the function returned (false) from inside the loop, and the state.
\<close>

fun mountOnEmptyDrive :: "int \<Rightarrow> 64 word \<Rightarrow> sched \<Rightarrow> drive list \<Rightarrow> fault + (bool \<times> sched)" where
  "mountOnEmptyDrive unset minFileSize s [] = Inr (False, s)"
| "mountOnEmptyDrive unset minFileSize s (d # ds) =
     (if \<not> driveIsUsable unset s d then mountOnEmptyDrive unset minFileSize s ds
      else if mountedInSlot s d \<noteq> None then mountOnEmptyDrive unset minFileSize s ds
      else case tapeToMount s minFileSize (getPoolConf s (pool s)) of
             Inl f \<Rightarrow> Inl f
           | Inr None \<Rightarrow> mountOnEmptyDrive unset minFileSize s ds
           | Inr (Some cartname) \<Rightarrow>
               (case moveTape (d_id d) cartname (mountTarget s) s of
                  Inl f \<Rightarrow> Inl f
                | Inr s' \<Rightarrow> Inr (True, s')))"

definition poolResAvail :: "int \<Rightarrow> 64 word \<Rightarrow> sched \<Rightarrow> fault + (bool \<times> sched)" where
  "poolResAvail unset minFileSize s =
     (if pool s = [] then Inl AssertFailed
      else case poolMounted minFileSize (getPoolConf s (pool s)) False s of
        Inl f \<Rightarrow> Inl f
      | Inr (found, unmountedExists, s1) \<Rightarrow>
          if found then Inr (True, s1)
          else if \<not> unmountedExists then Inr (False, s1)
          else
            (case mountOnEmptyDrive unset minFileSize s1 (drives s1) of
               Inl f \<Rightarrow> Inl f
             | Inr (returned, s2) \<Rightarrow>
                 if returned then Inr (False, s2)
                 else if list_ex (\<lambda>d. moveReqNum d = reqNum s2 \<and> moveReqPool d = pool s2)
                           (drives s2)
                 then Inr (False, s2)
                 else
                   (case tapeToUnmount unset s2 (drives s2) of
                      Some (d, cart) \<Rightarrow>
                        (case moveTape (d_id d) (c_id cart) TM_UNMOUNT s2 of
                           Inl f \<Rightarrow> Inl f
                         | Inr s3 \<Rightarrow> Inr (False, s3))
                    | None \<Rightarrow> Inr (False, s2))))"

definition resAvailTapeMove :: "sched \<Rightarrow> fault + (bool \<times> sched)" where
  "resAvailTapeMove s =
     (case getDrive s (driveId s) of
        None \<Rightarrow> Inl NullDeref
      | Some drive \<Rightarrow>
          (case getCartridge s (tapeId s) of
             None \<Rightarrow> Inl NullDeref
           | Some cart \<Rightarrow>
               if busy drive then Inr (False, s)
               else if (if op s = MOUNT \<or> op s = MOVE
                        then mountedInSlot s drive \<noteq> None
                        else d_slot drive \<noteq> c_slot cart \<or> c_state cart \<noteq> TAPE_MOUNTED)
               then Inr (False, s)
               else (case makeUse (driveId s) (tapeId s) s of
                       Inl f \<Rightarrow> Inl f
                     | Inr s' \<Rightarrow> Inr (True, s'))))"

definition resAvail :: "int \<Rightarrow> 64 word \<Rightarrow> sched \<Rightarrow> fault + (bool \<times> sched)" where
  "resAvail unset minFileSize s =
     (if op s = MOUNT \<or> op s = MOVE \<or> op s = UNMOUNT then resAvailTapeMove s
      else if op s = MIGRATION \<and> tapeId s = [] then poolResAvail unset minFileSize s
      else tapeResAvail unset s)"

text \<open>
  The drives that carry a pending motion of request \<open>r\<close> for pool \<open>p\<close> in their
  move-request fields.
\<close>

definition pendingMoves :: "sched \<Rightarrow> int \<Rightarrow> string \<Rightarrow> drive list" where
  "pendingMoves s r p = filter (\<lambda>d. moveReqNum d = r \<and> moveReqPool d = p) (drives s)"

definition moveReq :: "drive \<Rightarrow> int \<times> string" where
  "moveReq d = (moveReqNum d, moveReqPool d)"

text \<open>
  The invariant: no two drives carry the same pending motion. A drive with no pending
  motion has \<^verbatim>\<open>Const::UNSET\<close> as its \<^verbatim>\<open>moveReqNum\<close> (the test of
  \<^verbatim>\<open>driveIsUsable\<close>), so the invariant speaks of the request numbers other than
  that.
\<close>

definition atMostOneMove :: "int \<Rightarrow> sched \<Rightarrow> bool" where
  "atMostOneMove unset s = distinct (filter (\<lambda>q. fst q \<noteq> unset) (map moveReq (drives s)))"

section \<open>The per-connection dispatcher (MessageParser.cc)\<close>

subsection \<open>Shared state of the server\<close>

text \<open>
  The rows of the two tables, with the columns the dispatcher selects. The request
  number of a row is the 64-bit integer that is stored: it is what a
  \<^verbatim>\<open>WHERE REQ_NUM=\<close> clause compares, and \<^verbatim>\<open>sqlite3_column_int\<close> narrows it
  when the row is read. The other integer columns (operation, states, replica number)
  are kept as \<^verbatim>\<open>sqlite3_column_int\<close> returns them, the file size as
  \<^verbatim>\<open>sqlite3_column_int64\<close> does; a text column may be NULL. The tables are lists
  that can always be read: a statement that fails inside the store is outside the
  model.
\<close>

record req_row =
  r_operation :: int
  r_reqNum :: int
  r_tapeId :: "string option"
  r_targetState :: int
  r_state :: int

record job_row =
  j_operation :: int
  j_fileName :: "string option"
  j_reqNum :: int
  j_replNum :: int
  j_fileSize :: int
  j_tapeId :: "string option"
  j_fileState :: int

text \<open>
  The process-wide state that the handlers read and write: the three termination
  flags of \<^verbatim>\<open>Server\<close> and the one of \<^verbatim>\<open>Connector\<close>, the request-number
  counter, the two tables, the inventory (drives, cartridges, pools with their
  cartridges) and the managed file systems.
\<close>

record server =
  terminate :: bool
  forcedTerminate :: bool
  finishTerminate :: bool
  connectorForcedTerminate :: bool
  globalReqNumber :: int
  requestQueue :: "req_row list"
  jobQueue :: "job_row list"
  invDrives :: "drive list"
  invCartridges :: "cartridge list"
  invPools :: "(string \<times> cartridge list) list"
  managed :: "string list"

subsection \<open>Protocol messages\<close>

text \<open>
  Modelled from the spec: the message declarations (ltfsdm.proto is not among the
  sources). The fields are those the handlers read; by the spec every variant carries
  the 64-bit session key as its first field. \<open>OtherMessage\<close> stands for a message
  with none of the variants set.
\<close>

datatype message =
    ReqNum "64 word"
  | StopRequest "64 word" int bool bool
  | MigRequest "64 word" int int string int
  | SelRecRequest "64 word" int int int
  | SendObjects "64 word" "string list"
  | ReqStatusRequest "64 word" int int
  | StatusRequest "64 word"
  | AddRequest "64 word" string string string
  | InfoRequestsRequest "64 word" int
  | InfoJobsRequest "64 word" int
  | InfoDrivesRequest "64 word"
  | InfoTapesRequest "64 word"
  | PoolCreateRequest "64 word" string
  | PoolDeleteRequest "64 word" string
  | PoolAddRequest "64 word" string "string list"
  | PoolRemoveRequest "64 word" string "string list"
  | InfoPoolsRequest "64 word"
  | RetrieveRequest "64 word"
  | OtherMessage

datatype add_resp = SUCCESS | ALREADY_ADDED | FAILED

text \<open>
  The responses, with their fields in the order the handlers set them:
  \<^item> \<open>ReqNumberResp success reqnumber\<close>, \<open>StopResp success\<close>, \<open>StatusResp success pid\<close>;
  \<^item> \<open>MigRequestResp error reqnumber pid\<close>, \<open>SelRecRequestResp error reqnumber pid\<close>;
  \<^item> \<open>SendObjectsResp success reqnumber pid\<close>;
  \<^item> \<open>ReqStatusResp success reqnumber pid resident premigrated migrated failed done\<close>;
  \<^item> \<open>InfoRequestsResp operation reqnumber tapeid targetstate state\<close>;
  \<^item> \<open>InfoJobsResp operation filename reqnumber replnumber filesize tapeid state\<close>;
  \<^item> \<open>InfoDrivesResp id devname slot status busy\<close>;
  \<^item> \<open>InfoTapesResp id slot totalcap remaincap status inprogress pool state\<close>;
  \<^item> \<open>PoolResp tapeid response\<close>, \<open>InfoPoolsResp poolname total free unref numtapes\<close>,
    \<open>RetrieveResp error\<close>, \<open>AddResp response\<close>.
\<close>

datatype response =
    ReqNumberResp bool int
  | StopResp bool
  | MigRequestResp int int int
  | SelRecRequestResp int int int
  | SendObjectsResp bool int int
  | ReqStatusResp bool int int int int int int bool
  | StatusResp bool int
  | AddResp add_resp
  | InfoRequestsResp string int string string string
  | InfoJobsResp string string int int int string string
  | InfoDrivesResp string string int string bool
  | InfoTapesResp string int int int string int string string
  | PoolResp string int
  | InfoPoolsResp string int int int int
  | RetrieveResp int

text \<open>
  What a handler does to the outside, in order: a response handed to
  \<^verbatim>\<open>command->send()\<close>, a message written with \<^verbatim>\<open>MSG\<close>, the closing of
  the connection, the notifications of condition variables, the release of the
  termination lock and the signal raised at the end of a stop.
\<close>

datatype event =
    Send response
  | Msg msgid "marg list"
  | CloseAcc
  | NotifyTermcond
  | UnlockTermmtx
  | NotifyUpdcond
  | NotifyScheduler
  | KillSIGUSR1

text \<open>
  The sending side of a connection: which of the successive sends throws, how many
  sends were made, and the events so far. The receiving side is a list of the
  messages still to arrive; with each comes what the other threads of the server
  have done to the shared state by the time it is received. An empty list is a
  closed connection: \<^verbatim>\<open>recv\<close> throws.
\<close>

record conn =
  sendFails :: "nat \<Rightarrow> bool"
  nsent :: nat
  out :: "event list"

type_synonym inbox = "(message \<times> (server \<Rightarrow> server)) list"

definition emit :: "event \<Rightarrow> conn \<Rightarrow> conn" where
  "emit e c = c\<lparr>out := out c @ [e]\<rparr>"

definition send :: "response \<Rightarrow> conn \<Rightarrow> bool \<times> conn" where
  "send r c = (\<not> sendFails c (nsent c), c\<lparr>nsent := Suc (nsent c), out := out c @ [Send r]\<rparr>)"

text \<open>
  The recurring \<^verbatim>\<open>try { command->send(); } catch (...) { MSG(LTFSDMS0007E); }\<close>
  of the handlers that go on after a failed send.
\<close>

definition sendOrLog :: "response \<Rightarrow> conn \<Rightarrow> conn" where
  "sendOrLog r c = (case send r c of (ok, c1) \<Rightarrow> if ok then c1 else emit (Msg LTFSDMS0007E []) c1)"

subsection \<open>What the handlers use from outside the two source files\<close>

text \<open>
  An exception: an \<^verbatim>\<open>OpenLTFSException\<close> with its error code, or any other
  \<^verbatim>\<open>std::exception\<close>.
\<close>

datatype exc = OpenLTFSException int | StdException

text \<open>
  The two file operations a connection can create:
  \<open>Migration pid reqNumber pools numRepl state\<close> and \<open>SelRecall pid reqNumber state\<close>.
  The pool names are a \<^verbatim>\<open>std::set\<close>, here a list without repetitions.
\<close>

datatype fileop =
    Migration int int "string list" nat int
  | SelRecall int int int

text \<open>The counters of a status poll: resident, premigrated, migrated, failed.\<close>

type_synonym counters = "int \<times> int \<times> int \<times> int"

text \<open>
  The constants, tables and collaborators that the handlers use and that are declared
  outside the sources: \<^verbatim>\<open>Const::UNSET\<close>, \<^verbatim>\<open>Error::LTFSDM_TERMINATING\<close>,
  \<^verbatim>\<open>DataBase::REQ_INPROGRESS\<close>, the process id, the string tables, the message
  catalog, the virtual methods of \<^verbatim>\<open>FileOperation\<close>, the file system object and
  the mutating operations of the inventory. A collaborator that may throw returns the
  state it leaves and the exception, if any.
\<close>

record ext =
  UNSET :: int
  LTFSDM_TERMINATING :: int
  REQ_INPROGRESS :: int
  getpid :: int
  opStr :: "int \<Rightarrow> string"
  reqStateStr :: "int \<Rightarrow> string"
  migStateStr :: "int \<Rightarrow> string"
  sqlite3_errstr :: "int \<Rightarrow> string"
  messages :: "msgid \<Rightarrow> string"
  addJob :: "fileop \<Rightarrow> string \<Rightarrow> server \<Rightarrow> server \<times> exc option"
  addRequest :: "fileop \<Rightarrow> server \<Rightarrow> server"
  queryResult :: "fileop \<Rightarrow> int \<Rightarrow> counters \<Rightarrow> server \<Rightarrow> bool \<times> counters"
  isFsManaged :: "string \<Rightarrow> server \<Rightarrow> exc + bool"
  manageFs :: "string \<Rightarrow> string \<Rightarrow> string \<Rightarrow> server \<Rightarrow> server \<times> exc option"
  inv_poolCreate :: "string \<Rightarrow> server \<Rightarrow> server \<times> exc option"
  inv_poolDelete :: "string \<Rightarrow> server \<Rightarrow> server \<times> exc option"
  inv_poolAdd :: "string \<Rightarrow> string \<Rightarrow> server \<Rightarrow> server \<times> exc option"
  inv_poolRemove :: "string \<Rightarrow> string \<Rightarrow> server \<Rightarrow> server \<times> exc option"
  inv_writePools :: "server \<Rightarrow> server \<times> exc option"
  inventorize :: "server \<Rightarrow> server \<times> exc option"

text \<open>The error codes of errors.h and of sqlite3.h that MessageParser.cc names.\<close>

definition LTFSDM_OK :: int where "LTFSDM_OK = 0"
definition LTFSDM_FS_CHECK_ERROR :: int where "LTFSDM_FS_CHECK_ERROR = 1003"
definition LTFSDM_FS_ADD_ERROR :: int where "LTFSDM_FS_ADD_ERROR = 1004"
definition LTFSDM_WRONG_POOLNUM :: int where "LTFSDM_WRONG_POOLNUM = 1011"
definition LTFSDM_NOT_ALL_POOLS_EXIST :: int where "LTFSDM_NOT_ALL_POOLS_EXIST = 1012"
definition SQLITE_CONSTRAINT_PRIMARYKEY :: int where "SQLITE_CONSTRAINT_PRIMARYKEY = 1555"
definition SQLITE_CONSTRAINT_UNIQUE :: int where "SQLITE_CONSTRAINT_UNIQUE = 2067"

text \<open>
  The values of the local \<^verbatim>\<open>int error\<close> of \<^verbatim>\<open>migrationMessage\<close> and
  \<^verbatim>\<open>selRecallMessage\<close>, and the number each puts into the response.
  \<^verbatim>\<open>!error\<close> is the test for \<open>E_OK\<close>.
\<close>

datatype req_error = E_OK | E_NOT_ALL_POOLS_EXIST | E_WRONG_POOLNUM | E_TERMINATING

fun errnum :: "ext \<Rightarrow> req_error \<Rightarrow> int" where
  "errnum x E_OK = LTFSDM_OK"
| "errnum x E_NOT_ALL_POOLS_EXIST = LTFSDM_NOT_ALL_POOLS_EXIST"
| "errnum x E_WRONG_POOLNUM = LTFSDM_WRONG_POOLNUM"
| "errnum x E_TERMINATING = LTFSDM_TERMINATING x"

text \<open>The key as \<^verbatim>\<open>MSG(LTFSDMS0008E, keySent)\<close> prints it, a \<^verbatim>\<open>long\<close>.\<close>

definition wrongKey :: "64 word \<Rightarrow> event" where
  "wrongKey keySent = Msg LTFSDMS0008E [Num (sint keySent)]"

subsection \<open>Receiving the file names\<close>

text \<open>
  The \<^verbatim>\<open>for\<close> loop of \<^verbatim>\<open>getObjects\<close> over the file names of one batch.
  The result says whether the function returned from inside the loop (the server is
  terminating), the flag \<^verbatim>\<open>cont\<close>, and the state and connection.
\<close>

fun addJobs :: "ext \<Rightarrow> fileop \<Rightarrow> string list \<Rightarrow> bool \<Rightarrow> server \<Rightarrow> conn
                  \<Rightarrow> bool \<times> bool \<times> server \<times> conn" where
  "addJobs x fopt [] cont s c = (False, cont, s, c)"
| "addJobs x fopt (filename # rest) cont s c =
     (if terminate s then (True, cont, s, emit CloseAcc c)
      else if filename \<noteq> [] then
        (case addJob x fopt filename s of
           (s1, None) \<Rightarrow> addJobs x fopt rest cont s1 c
         | (s1, Some (OpenLTFSException e)) \<Rightarrow>
             addJobs x fopt rest cont s1
               (emit (if e = SQLITE_CONSTRAINT_PRIMARYKEY \<or> e = SQLITE_CONSTRAINT_UNIQUE
                      then Msg LTFSDMS0019E [Str filename]
                      else Msg LTFSDMS0015E [Str filename, Str (sqlite3_errstr x e)]) c)
         | (s1, Some StdException) \<Rightarrow> addJobs x fopt rest cont s1 c)
      else addJobs x fopt rest False s c)"

text \<open>
  \<^verbatim>\<open>getObjects\<close>: one round of the \<^verbatim>\<open>while\<close> loop per received message.
  The local \<^verbatim>\<open>success\<close> is true and never assigned.
\<close>

fun getObjects :: "ext \<Rightarrow> int \<Rightarrow> int \<Rightarrow> fileop \<Rightarrow> inbox \<Rightarrow> server \<Rightarrow> conn
                     \<Rightarrow> inbox \<times> server \<times> conn" where
  "getObjects x pid requestNumber fopt [] s c =
     (if forcedTerminate s then ([], s, c)
      else ([], s, emit (Msg LTFSDMS0006E []) c))"
| "getObjects x pid requestNumber fopt ((m, env) # ib) s c =
     (if forcedTerminate s then ((m, env) # ib, s, c)
      else
        (case m of
           SendObjects k filenames \<Rightarrow>
             (case addJobs x fopt filenames True (env s) c of
                (returned, cont, s1, c1) \<Rightarrow>
                  if returned then (ib, s1, c1)
                  else
                    (case send (SendObjectsResp True requestNumber pid) c1 of
                       (ok, c2) \<Rightarrow>
                         if \<not> ok then (ib, s1, emit (Msg LTFSDMS0007E []) c2)
                         else if cont then getObjects x pid requestNumber fopt ib s1 c2
                         else (ib, s1, c2)))
         | _ \<Rightarrow> (ib, env s, emit (Msg LTFSDMS0011E []) c)))"

subsection \<open>The status poll\<close>

text \<open>
  \<^verbatim>\<open>command->reqstatusrequest()\<close> is read without a test of the variant: for
  another message it is the default instance.
\<close>

fun reqstatusrequest :: "message \<Rightarrow> 64 word \<times> int \<times> int" where
  "reqstatusrequest (ReqStatusRequest k rn pid) = (k, rn, pid)"
| "reqstatusrequest _ = (0, 0, 0)"

fun reqStatusMessage :: "ext \<Rightarrow> 64 word \<Rightarrow> fileop \<Rightarrow> counters \<Rightarrow> inbox \<Rightarrow> server \<Rightarrow> conn
                           \<Rightarrow> inbox \<times> server \<times> conn" where
  "reqStatusMessage x key fopt cnt [] s c = ([], s, emit (Msg LTFSDMS0006E []) c)"
| "reqStatusMessage x key fopt cnt ((m, env) # ib) s c =
     (case reqstatusrequest m of
        (keySent, requestNumber, pid) \<Rightarrow>
          if key \<noteq> keySent then (ib, env s, emit (wrongKey keySent) c)
          else
            (case queryResult x fopt requestNumber cnt (env s) of
               (done, (resident, premigrated, migrated, failed)) \<Rightarrow>
                 (case send (ReqStatusResp True requestNumber pid resident premigrated
                               migrated failed done) c of
                    (ok, c1) \<Rightarrow>
                      if \<not> ok then (ib, env s, emit (Msg LTFSDMS0007E []) c1)
                      else if \<not> done
                      then reqStatusMessage x key fopt (resident, premigrated, migrated, failed)
                             ib (env s) c1
                      else (ib, env s, c1))))"

subsection \<open>Migration and selective recall\<close>

text \<open>
  \<^verbatim>\<open>std::getline(poolss, pool, ',')\<close> called until it fails: the pieces between
  the commas, without a last empty piece. The first argument is the piece read so far.
\<close>

fun getlines :: "string \<Rightarrow> string \<Rightarrow> string list" where
  "getlines cur [] = (if cur = [] then [] else [cur])"
| "getlines cur (ch # rest) =
     (if ch = CHR '','' then cur # getlines [] rest else getlines (cur @ [ch]) rest)"

definition getPool :: "server \<Rightarrow> string \<Rightarrow> (string \<times> cartridge list) option" where
  "getPool s pl = find (\<lambda>p. fst p = pl) (invPools s)"

text \<open>
  The loop over the pool names of a migration request: it stops with
  \<^verbatim>\<open>LTFSDM_NOT_ALL_POOLS_EXIST\<close> at the first name that is not a pool and
  collects the others in the set \<^verbatim>\<open>pools\<close>.
\<close>

fun collectPools :: "server \<Rightarrow> string list \<Rightarrow> string list \<Rightarrow> req_error \<times> string list" where
  "collectPools s [] pools = (E_OK, pools)"
| "collectPools s (pl # rest) pools =
     (case getPool s pl of
        None \<Rightarrow> (E_NOT_ALL_POOLS_EXIST, pools)
      | Some _ \<Rightarrow> collectPools s rest (if pl \<in> set pools then pools else pools @ [pl]))"

text \<open>
  The block of \<^verbatim>\<open>migrationMessage\<close> that runs when the server is not
  terminating: the error and the \<^verbatim>\<open>Migration\<close> object it constructs.
\<close>

definition newMigration :: "server \<Rightarrow> int \<Rightarrow> int \<Rightarrow> string \<Rightarrow> int \<Rightarrow> req_error \<times> fileop" where
  "newMigration s pid requestNumber poolstr st =
     (case collectPools s (getlines [] poolstr) [] of
        (error, pools) \<Rightarrow>
          (if error = E_OK \<and> length pools > 3 then E_WRONG_POOLNUM else error,
           Migration pid requestNumber pools (length pools) st))"

text \<open>
  The part that migration and selective recall share after an accepted request:
  receive the objects, add the request, answer the status polls.
\<close>

definition serveRequest :: "ext \<Rightarrow> 64 word \<Rightarrow> int \<Rightarrow> int \<Rightarrow> fileop \<Rightarrow> inbox \<Rightarrow> server \<Rightarrow> conn
                             \<Rightarrow> inbox \<times> server \<times> conn" where
  "serveRequest x key pid requestNumber fopt ib s c =
     (case getObjects x pid requestNumber fopt ib s c of
        (ib1, s1, c1) \<Rightarrow> reqStatusMessage x key fopt (0, 0, 0, 0) ib1 (addRequest x fopt s1) c1)"

definition migrationMessage :: "ext \<Rightarrow> 64 word \<Rightarrow> 64 word \<Rightarrow> int \<Rightarrow> int \<Rightarrow> string \<Rightarrow> int
                                 \<Rightarrow> inbox \<Rightarrow> server \<Rightarrow> conn \<Rightarrow> inbox \<times> server \<times> conn" where
  "migrationMessage x key keySent requestNumber pid poolstr st ib s c =
     (if key \<noteq> keySent then (ib, s, emit (wrongKey keySent) c)
      else
        (case (if \<not> terminate s
               then (case newMigration s pid requestNumber poolstr st of
                       (error, mig) \<Rightarrow> (error, Some mig))
               else (E_TERMINATING, None)) of
           (error, mig) \<Rightarrow>
             (case send (MigRequestResp (errnum x error) requestNumber pid) c of
                (ok, c1) \<Rightarrow>
                  if \<not> ok then (ib, s, emit (Msg LTFSDMS0007E []) c1)
                  else
                    (case mig of
                       Some fopt \<Rightarrow>
                         if error = E_OK then serveRequest x key pid requestNumber fopt ib s c1
                         else (ib, s, c1)
                     | None \<Rightarrow> (ib, s, c1)))))"

definition selRecallMessage :: "ext \<Rightarrow> 64 word \<Rightarrow> 64 word \<Rightarrow> int \<Rightarrow> int \<Rightarrow> int
                                 \<Rightarrow> inbox \<Rightarrow> server \<Rightarrow> conn \<Rightarrow> inbox \<times> server \<times> conn" where
  "selRecallMessage x key keySent requestNumber pid st ib s c =
     (if key \<noteq> keySent then (ib, s, emit (wrongKey keySent) c)
      else
        (case (if \<not> terminate s then (E_OK, Some (SelRecall pid requestNumber st))
               else (E_TERMINATING, None)) of
           (error, srec) \<Rightarrow>
             (case send (SelRecRequestResp (errnum x error) requestNumber pid) c of
                (ok, c1) \<Rightarrow>
                  if \<not> ok then (ib, s, emit (Msg LTFSDMS0007E []) c1)
                  else
                    (case srec of
                       Some fopt \<Rightarrow>
                         if error = E_OK then serveRequest x key pid requestNumber fopt ib s c1
                         else (ib, s, c1)
                     | None \<Rightarrow> (ib, s, c1)))))"

subsection \<open>Request numbers, stop, status, add\<close>

text \<open>
  \<^verbatim>\<open>requestNumber\<close> returns the new value of the caller's
  \<^verbatim>\<open>localReqNumber\<close>.
\<close>

definition requestNumber :: "64 word \<Rightarrow> 64 word \<Rightarrow> int \<Rightarrow> server \<Rightarrow> conn \<Rightarrow> int \<times> server \<times> conn" where
  "requestNumber key keySent localReqNumber s c =
     (if key \<noteq> keySent then (localReqNumber, s, emit (wrongKey keySent) c)
      else
        (let s1 = s\<lparr>globalReqNumber := globalReqNumber s + 1\<rparr>
         in (globalReqNumber s1, s1, sendOrLog (ReqNumberResp True (globalReqNumber s1)) c)))"

text \<open>
  The number of rows of the request queue in state \<^verbatim>\<open>REQ_INPROGRESS\<close>, as the
  \<^verbatim>\<open>while\<close> loop over \<^verbatim>\<open>SELECT STATE FROM REQUEST_QUEUE\<close> counts them.
\<close>

definition inProgress :: "ext \<Rightarrow> server \<Rightarrow> nat" where
  "inProgress x s = length (filter (\<lambda>r. r_state r = REQ_INPROGRESS x) (requestQueue s))"

text \<open>
  The \<^verbatim>\<open>do ... while (numreqs > 0)\<close> loop of \<^verbatim>\<open>stopMessage\<close>. The result
  says whether the loop was left at its end (and not by a \<^verbatim>\<open>return\<close>).
\<close>

fun stopLoop :: "ext \<Rightarrow> inbox \<Rightarrow> server \<Rightarrow> conn \<Rightarrow> bool \<times> inbox \<times> server \<times> conn" where
  "stopLoop x [] s c =
     (let numreqs = (if \<not> forcedTerminate s \<and> \<not> finishTerminate s then inProgress x s else 0)
      in case send (StopResp (numreqs = 0)) c of
           (ok, c1) \<Rightarrow>
             if \<not> ok then (False, [], s, emit (Msg LTFSDMS0007E []) c1)
             else if numreqs > 0 then (False, [], s, emit (Msg LTFSDMS0006E []) c1)
             else (True, [], s, c1))"
| "stopLoop x ((m, env) # ib) s c =
     (let numreqs = (if \<not> forcedTerminate s \<and> \<not> finishTerminate s then inProgress x s else 0)
      in case send (StopResp (numreqs = 0)) c of
           (ok, c1) \<Rightarrow>
             if \<not> ok then (False, (m, env) # ib, s, emit (Msg LTFSDMS0007E []) c1)
             else if numreqs > 0 then stopLoop x ib (env s) c1
             else (True, (m, env) # ib, s, c1))"

definition stopMessage :: "ext \<Rightarrow> 64 word \<Rightarrow> 64 word \<Rightarrow> bool \<Rightarrow> bool \<Rightarrow> inbox \<Rightarrow> server \<Rightarrow> conn
                            \<Rightarrow> inbox \<times> server \<times> conn" where
  "stopMessage x key keySent forced finish ib s c =
     (if key \<noteq> keySent then (ib, s, emit (wrongKey keySent) c)
      else
        (let c1 = emit (Msg LTFSDMS0009I []) c;
             s1 = s\<lparr>terminate := True\<rparr>;
             s2 = (if forced then s1\<lparr>forcedTerminate := True, connectorForcedTerminate := True\<rparr>
                   else s1);
             s3 = (if finish then s2\<lparr>finishTerminate := True\<rparr> else s2);
             c2 = (if finish then emit NotifyUpdcond c1 else c1);
             c3 = emit UnlockTermmtx (emit NotifyTermcond c2)
         in case stopLoop x ib s3 c3 of
              (finished, ib1, s4, c4) \<Rightarrow>
                if finished then (ib1, s4, emit KillSIGUSR1 (emit NotifyScheduler c4))
                else (ib1, s4, c4)))"

definition statusMessage :: "ext \<Rightarrow> 64 word \<Rightarrow> 64 word \<Rightarrow> conn \<Rightarrow> conn" where
  "statusMessage x key keySent c =
     (if key \<noteq> keySent then emit (wrongKey keySent) c
      else sendOrLog (StatusResp True (getpid x)) c)"

definition addMessage :: "ext \<Rightarrow> 64 word \<Rightarrow> 64 word \<Rightarrow> string \<Rightarrow> string \<Rightarrow> string \<Rightarrow> server \<Rightarrow> conn
                           \<Rightarrow> server \<times> conn" where
  "addMessage x key keySent managedFs mountPoint fsName s c =
     (if key \<noteq> keySent then (s, emit (wrongKey keySent) c)
      else
        (case (case isFsManaged x managedFs s of
                 Inr True \<Rightarrow>
                   (ALREADY_ADDED, s, emit (Msg LTFSDMS0043W [Str managedFs]) c, None)
               | Inr False \<Rightarrow>
                   (case manageFs x managedFs mountPoint fsName s of
                      (s1, e) \<Rightarrow> (SUCCESS, s1, emit (Msg LTFSDMS0042I [Str managedFs]) c, e))
               | Inl e \<Rightarrow> (SUCCESS, s, c, Some e)) of
           (response, s1, c1, thrown) \<Rightarrow>
             (case thrown of
                Some (OpenLTFSException e) \<Rightarrow>
                  (s1, sendOrLog (AddResp FAILED)
                         (emit (Msg (if e = LTFSDM_FS_CHECK_ERROR then LTFSDMS0044E
                                     else LTFSDMS0045E) [Str managedFs]) c1))
              | _ \<Rightarrow> (s1, sendOrLog (AddResp response) c1))))"

subsection \<open>The info streams\<close>

text \<open>
  Every row of a stream is sent with a failed send only reported, and so is the row
  that ends the stream.
\<close>

definition sendRows :: "response list \<Rightarrow> conn \<Rightarrow> conn" where
  "sendRows rows c = fold sendOrLog rows c"

text \<open>
  The conversion of a 64-bit number to a C \<^verbatim>\<open>int\<close>: the value modulo \<open>2^32\<close>
  in the range from \<open>-2^31\<close> to \<open>2^31 - 1\<close>.
\<close>

definition narrowInt :: "int \<Rightarrow> int" where
  "narrowInt n = (n + 2147483648) mod 4294967296 - 2147483648"

text \<open>
  The rows that the \<^verbatim>\<open>SELECT\<close> of \<^verbatim>\<open>infoRequestsMessage\<close> and of
  \<^verbatim>\<open>infoJobsMessage\<close> yields. Both handlers first store the request number of
  the message in the local \<^verbatim>\<open>int requestNumber\<close>, and it is this narrowed
  number that is compared with \<^verbatim>\<open>Const::UNSET\<close> and written into the
  \<^verbatim>\<open>WHERE\<close> clause.
\<close>

definition selectRows :: "ext \<Rightarrow> int \<Rightarrow> ('a \<Rightarrow> int) \<Rightarrow> 'a list \<Rightarrow> 'a list" where
  "selectRows x reqnumber col rows =
     (let requestNumber = narrowInt reqnumber
      in if requestNumber \<noteq> UNSET x then filter (\<lambda>r. col r = requestNumber) rows
         else rows)"

definition requestRow :: "ext \<Rightarrow> req_row \<Rightarrow> response" where
  "requestRow x r =
     InfoRequestsResp (opStr x (r_operation r)) (narrowInt (r_reqNum r))
       (case r_tapeId r of None \<Rightarrow> [] | Some t \<Rightarrow> t)
       (reqStateStr x (r_targetState r)) (reqStateStr x (r_state r))"

definition infoRequestsMessage :: "ext \<Rightarrow> 64 word \<Rightarrow> 64 word \<Rightarrow> int \<Rightarrow> server \<Rightarrow> conn \<Rightarrow> conn" where
  "infoRequestsMessage x key keySent reqnumber s c =
     (if key \<noteq> keySent then emit (wrongKey keySent) c
      else sendOrLog (InfoRequestsResp [] (UNSET x) [] [] [])
             (sendRows (map (requestRow x) (selectRows x reqnumber r_reqNum (requestQueue s))) c))"

definition jobRow :: "ext \<Rightarrow> job_row \<Rightarrow> response" where
  "jobRow x j =
     InfoJobsResp (opStr x (j_operation j))
       (case j_fileName j of None \<Rightarrow> ''-'' | Some f \<Rightarrow> f)
       (narrowInt (j_reqNum j)) (j_replNum j) (j_fileSize j)
       (case j_tapeId j of None \<Rightarrow> ''-'' | Some t \<Rightarrow> t)
       (migStateStr x (j_fileState j))"

definition infoJobsMessage :: "ext \<Rightarrow> 64 word \<Rightarrow> 64 word \<Rightarrow> int \<Rightarrow> server \<Rightarrow> conn \<Rightarrow> conn" where
  "infoJobsMessage x key keySent reqnumber s c =
     (if key \<noteq> keySent then emit (wrongKey keySent) c
      else sendOrLog (InfoJobsResp [] [] (UNSET x) (UNSET x) (UNSET x) [] [])
             (sendRows (map (jobRow x) (selectRows x reqnumber j_reqNum (jobQueue s))) c))"

definition driveRow :: "drive \<Rightarrow> response" where
  "driveRow d = InfoDrivesResp (d_id d) (d_devname d) (d_slot d) (d_status d) (busy d)"

definition infoDrivesMessage :: "64 word \<Rightarrow> 64 word \<Rightarrow> server \<Rightarrow> conn \<Rightarrow> conn" where
  "infoDrivesMessage key keySent s c =
     (if key \<noteq> keySent then emit (wrongKey keySent) c
      else sendOrLog (InfoDrivesResp [] [] 0 [] False) (sendRows (map driveRow (invDrives s)) c))"

text \<open>
  The state of a cartridge as \<^verbatim>\<open>infoTapesMessage\<close> prints it, from the message
  catalog.
\<close>

fun tapeStateStr :: "ext \<Rightarrow> cart_state \<Rightarrow> string" where
  "tapeStateStr x TAPE_INUSE = messages x LTFSDMS0055I"
| "tapeStateStr x TAPE_MOUNTED = messages x LTFSDMS0056I"
| "tapeStateStr x TAPE_MOVING = messages x LTFSDMS0057I"
| "tapeStateStr x TAPE_UNMOUNTED = messages x LTFSDMS0058I"
| "tapeStateStr x TAPE_INVALID = messages x LTFSDMS0059I"
| "tapeStateStr x TAPE_UNKNOWN = messages x LTFSDMS0060I"

definition tapeRow :: "ext \<Rightarrow> cartridge \<Rightarrow> response" where
  "tapeRow x c =
     InfoTapesResp (c_id c) (c_slot c) (uint (c_total_cap c)) (uint (c_remaining_cap c))
       (c_status c) (c_inProgress c) (c_pool c) (tapeStateStr x (c_state c))"

text \<open>
  The row that ends the tapes stream is written into the response object that the
  loop has used: \<^verbatim>\<open>command->mutable_infotapesresp()\<close> returns the same
  sub-message, and the closing block sets \<^verbatim>\<open>status\<close> twice and \<^verbatim>\<open>state\<close>
  not at all. Its \<^verbatim>\<open>state\<close> is what the last row left there, initially the
  default of the field.
\<close>

definition lastTapeState :: "ext \<Rightarrow> cartridge list \<Rightarrow> string" where
  "lastTapeState x cs = (if cs = [] then [] else tapeStateStr x (c_state (last cs)))"

definition infoTapesMessage :: "ext \<Rightarrow> 64 word \<Rightarrow> 64 word \<Rightarrow> server \<Rightarrow> conn \<Rightarrow> conn" where
  "infoTapesMessage x key keySent s c =
     (if key \<noteq> keySent then emit (wrongKey keySent) c
      else sendOrLog (InfoTapesResp [] 0 0 0 [] 0 [] (lastTapeState x (invCartridges s)))
             (sendRows (map (tapeRow x) (invCartridges s)) c))"

text \<open>
  The sums of \<^verbatim>\<open>infoPoolsMessage\<close> are \<^verbatim>\<open>unsigned long\<close>; \<^verbatim>\<open>unref\<close>
  stays 0.
\<close>

definition poolRow :: "string \<times> cartridge list \<Rightarrow> response" where
  "poolRow p =
     InfoPoolsResp (fst p) (uint (sum_list (map c_total_cap (snd p))))
       (uint (sum_list (map c_remaining_cap (snd p)))) 0 (int (length (snd p)))"

definition infoPoolsMessage :: "64 word \<Rightarrow> 64 word \<Rightarrow> server \<Rightarrow> conn \<Rightarrow> conn" where
  "infoPoolsMessage key keySent s c =
     (if key \<noteq> keySent then emit (wrongKey keySent) c
      else sendOrLog (InfoPoolsResp [] 0 0 0 0) (sendRows (map poolRow (invPools s)) c))"

subsection \<open>Pools and retrieve\<close>

text \<open>
  The \<^verbatim>\<open>try\<close> block of the pool handlers: the operation, then
  \<^verbatim>\<open>writePools\<close>; the response is the error of the exception caught.
\<close>

definition excResponse :: "ext \<Rightarrow> exc option \<Rightarrow> int" where
  "excResponse x e =
     (case e of None \<Rightarrow> LTFSDM_OK | Some (OpenLTFSException n) \<Rightarrow> n | Some StdException \<Rightarrow> UNSET x)"

definition poolOp :: "ext \<Rightarrow> (server \<Rightarrow> server \<times> exc option) \<Rightarrow> server \<Rightarrow> server \<times> int" where
  "poolOp x f s =
     (case f s of
        (s1, Some e) \<Rightarrow> (s1, excResponse x (Some e))
      | (s1, None) \<Rightarrow> (case inv_writePools x s1 of (s2, e) \<Rightarrow> (s2, excResponse x e)))"

definition poolCreateMessage :: "ext \<Rightarrow> 64 word \<Rightarrow> 64 word \<Rightarrow> string \<Rightarrow> server \<Rightarrow> conn \<Rightarrow> server \<times> conn" where
  "poolCreateMessage x key keySent poolName s c =
     (if key \<noteq> keySent then (s, emit (wrongKey keySent) c)
      else case poolOp x (inv_poolCreate x poolName) s of
             (s1, response) \<Rightarrow> (s1, sendOrLog (PoolResp [] response) c))"

definition poolDeleteMessage :: "ext \<Rightarrow> 64 word \<Rightarrow> 64 word \<Rightarrow> string \<Rightarrow> server \<Rightarrow> conn \<Rightarrow> server \<times> conn" where
  "poolDeleteMessage x key keySent poolName s c =
     (if key \<noteq> keySent then (s, emit (wrongKey keySent) c)
      else case poolOp x (inv_poolDelete x poolName) s of
             (s1, response) \<Rightarrow> (s1, sendOrLog (PoolResp [] response) c))"

text \<open>The loop over the tape ids of a pool add or pool remove request.\<close>

fun poolTapes :: "ext \<Rightarrow> (string \<Rightarrow> server \<Rightarrow> server \<times> exc option) \<Rightarrow> string list \<Rightarrow> server \<Rightarrow> conn
                    \<Rightarrow> server \<times> conn" where
  "poolTapes x f [] s c = (s, c)"
| "poolTapes x f (tapeid # rest) s c =
     (case poolOp x (f tapeid) s of
        (s1, response) \<Rightarrow> poolTapes x f rest s1 (sendOrLog (PoolResp tapeid response) c))"

definition poolAddMessage :: "ext \<Rightarrow> 64 word \<Rightarrow> 64 word \<Rightarrow> string \<Rightarrow> string list \<Rightarrow> server \<Rightarrow> conn
                               \<Rightarrow> server \<times> conn" where
  "poolAddMessage x key keySent poolName tapeids s c =
     (if key \<noteq> keySent then (s, emit (wrongKey keySent) c)
      else poolTapes x (inv_poolAdd x poolName) tapeids s c)"

definition poolRemoveMessage :: "ext \<Rightarrow> 64 word \<Rightarrow> 64 word \<Rightarrow> string \<Rightarrow> string list \<Rightarrow> server \<Rightarrow> conn
                                  \<Rightarrow> server \<times> conn" where
  "poolRemoveMessage x key keySent poolName tapeids s c =
     (if key \<noteq> keySent then (s, emit (wrongKey keySent) c)
      else poolTapes x (inv_poolRemove x poolName) tapeids s c)"

definition retrieveMessage :: "ext \<Rightarrow> 64 word \<Rightarrow> 64 word \<Rightarrow> server \<Rightarrow> conn \<Rightarrow> server \<times> conn" where
  "retrieveMessage x key keySent s c =
     (if key \<noteq> keySent then (s, emit (wrongKey keySent) c)
      else case inventorize x s of
             (s1, e) \<Rightarrow> (s1, sendOrLog (RetrieveResp (excResponse x e)) c))"

subsection \<open>Dispatch\<close>

text \<open>
  The chain of \<^verbatim>\<open>has_...\<close> tests of \<^verbatim>\<open>MessageParser::run\<close> with the
  handler each leads to. A send-objects or status-poll message here, where no request
  is open, is an unknown command like any other.
\<close>

fun handle :: "ext \<Rightarrow> 64 word \<Rightarrow> int \<Rightarrow> message \<Rightarrow> inbox \<Rightarrow> server \<Rightarrow> conn
                 \<Rightarrow> int \<times> inbox \<times> server \<times> conn" where
  "handle x key lrn (ReqNum k) ib s c =
     (case requestNumber key k lrn s c of (lrn1, s1, c1) \<Rightarrow> (lrn1, ib, s1, c1))"
| "handle x key lrn (StopRequest k rn forced finish) ib s c =
     (case stopMessage x key k forced finish ib s c of (ib1, s1, c1) \<Rightarrow> (lrn, ib1, s1, c1))"
| "handle x key lrn (MigRequest k rn pid poolstr st) ib s c =
     (case migrationMessage x key k rn pid poolstr st ib s c of
        (ib1, s1, c1) \<Rightarrow> (lrn, ib1, s1, c1))"
| "handle x key lrn (SelRecRequest k rn pid st) ib s c =
     (case selRecallMessage x key k rn pid st ib s c of (ib1, s1, c1) \<Rightarrow> (lrn, ib1, s1, c1))"
| "handle x key lrn (StatusRequest k) ib s c = (lrn, ib, s, statusMessage x key k c)"
| "handle x key lrn (AddRequest k managedFs mountPoint fsName) ib s c =
     (case addMessage x key k managedFs mountPoint fsName s c of (s1, c1) \<Rightarrow> (lrn, ib, s1, c1))"
| "handle x key lrn (InfoRequestsRequest k rn) ib s c =
     (lrn, ib, s, infoRequestsMessage x key k rn s c)"
| "handle x key lrn (InfoJobsRequest k rn) ib s c = (lrn, ib, s, infoJobsMessage x key k rn s c)"
| "handle x key lrn (InfoDrivesRequest k) ib s c = (lrn, ib, s, infoDrivesMessage key k s c)"
| "handle x key lrn (InfoTapesRequest k) ib s c = (lrn, ib, s, infoTapesMessage x key k s c)"
| "handle x key lrn (PoolCreateRequest k poolName) ib s c =
     (case poolCreateMessage x key k poolName s c of (s1, c1) \<Rightarrow> (lrn, ib, s1, c1))"
| "handle x key lrn (PoolDeleteRequest k poolName) ib s c =
     (case poolDeleteMessage x key k poolName s c of (s1, c1) \<Rightarrow> (lrn, ib, s1, c1))"
| "handle x key lrn (PoolAddRequest k poolName tapeids) ib s c =
     (case poolAddMessage x key k poolName tapeids s c of (s1, c1) \<Rightarrow> (lrn, ib, s1, c1))"
| "handle x key lrn (PoolRemoveRequest k poolName tapeids) ib s c =
     (case poolRemoveMessage x key k poolName tapeids s c of (s1, c1) \<Rightarrow> (lrn, ib, s1, c1))"
| "handle x key lrn (InfoPoolsRequest k) ib s c = (lrn, ib, s, infoPoolsMessage key k s c)"
| "handle x key lrn (RetrieveRequest k) ib s c =
     (case retrieveMessage x key k s c of (s1, c1) \<Rightarrow> (lrn, ib, s1, c1))"
| "handle x key lrn (SendObjects k filenames) ib s c = (lrn, ib, s, c)"
| "handle x key lrn (ReqStatusRequest k rn pid) ib s c = (lrn, ib, s, c)"
| "handle x key lrn OtherMessage ib s c = (lrn, ib, s, c)"

text \<open>
  \<^verbatim>\<open>MessageParser::run\<close>: request-number messages are answered until another
  message arrives; that one is handled and the connection closed. Before any handler
  but the one for stop, the termination lock is released.
\<close>

fun run :: "ext \<Rightarrow> 64 word \<Rightarrow> int \<Rightarrow> inbox \<Rightarrow> server \<Rightarrow> conn \<Rightarrow> inbox \<times> server \<times> conn" where
  "run x key lrn [] s c =
     ([], s, emit UnlockTermmtx (emit NotifyTermcond (emit (Msg LTFSDMS0006E []) c)))"
| "run x key lrn ((m, env) # ib) s c =
     (case m of
        ReqNum k \<Rightarrow>
          (case requestNumber key k lrn (env s) c of (lrn1, s1, c1) \<Rightarrow> run x key lrn1 ib s1 c1)
      | StopRequest k rn forced finish \<Rightarrow>
          (case handle x key lrn m ib (env s) c of
             (lrn1, ib1, s1, c1) \<Rightarrow> (ib1, s1, emit CloseAcc c1))
      | _ \<Rightarrow>
          (case handle x key lrn m ib (env s) (emit UnlockTermmtx (emit NotifyTermcond c)) of
             (lrn1, ib1, s1, c1) \<Rightarrow> (ib1, s1, emit CloseAcc c1)))"

text \<open>
  The session key a message carries, and the variants for which
  \<^verbatim>\<open>MessageParser::run\<close> has a handler.
\<close>

fun keyOf :: "message \<Rightarrow> 64 word option" where
  "keyOf (ReqNum k) = Some k"
| "keyOf (StopRequest k rn forced finish) = Some k"
| "keyOf (MigRequest k rn pid poolstr st) = Some k"
| "keyOf (SelRecRequest k rn pid st) = Some k"
| "keyOf (SendObjects k filenames) = Some k"
| "keyOf (ReqStatusRequest k rn pid) = Some k"
| "keyOf (StatusRequest k) = Some k"
| "keyOf (AddRequest k managedFs mountPoint fsName) = Some k"
| "keyOf (InfoRequestsRequest k rn) = Some k"
| "keyOf (InfoJobsRequest k rn) = Some k"
| "keyOf (InfoDrivesRequest k) = Some k"
| "keyOf (InfoTapesRequest k) = Some k"
| "keyOf (PoolCreateRequest k poolName) = Some k"
| "keyOf (PoolDeleteRequest k poolName) = Some k"
| "keyOf (PoolAddRequest k poolName tapeids) = Some k"
| "keyOf (PoolRemoveRequest k poolName tapeids) = Some k"
| "keyOf (InfoPoolsRequest k) = Some k"
| "keyOf (RetrieveRequest k) = Some k"
| "keyOf OtherMessage = None"

fun hasHandler :: "message \<Rightarrow> bool" where
  "hasHandler (SendObjects k filenames) = False"
| "hasHandler (ReqStatusRequest k rn pid) = False"
| "hasHandler OtherMessage = False"
| "hasHandler _ = True"

text \<open>The responses among the events of a connection, in the order they were sent.\<close>

definition sent :: "conn \<Rightarrow> response list" where
  "sent c = concat (map (\<lambda>e. case e of Send r \<Rightarrow> [r] | _ \<Rightarrow> []) (out c))"

section \<open>Example inventories\<close>

text \<open>
  Two drives and two cartridges; T1 is mounted in the slot of D0, T2 is unmounted.
  A selective recall (request 7) asks for T1.
\<close>

definition exD0 :: drive where
  "exD0 = \<lparr>d_id = ''D0'', d_devname = ''/dev/sg3'', d_slot = 256, d_status = ''Available'',
           busy = False, moveReqNum = -1, moveReqPool = [], toUnblock = UNMOUNT\<rparr>"

definition exD1 :: drive where
  "exD1 = \<lparr>d_id = ''D1'', d_devname = ''/dev/sg4'', d_slot = 257, d_status = ''Available'',
           busy = False, moveReqNum = -1, moveReqPool = [], toUnblock = UNMOUNT\<rparr>"

definition exT1 :: cartridge where
  "exT1 = \<lparr>c_id = ''T1'', c_slot = 256, c_total_cap = 2000000, c_remaining_cap = 1500000,
           c_status = ''Valid LTFS'', c_inProgress = 0, c_pool = ''p1'',
           c_state = TAPE_MOUNTED, requested = False\<rparr>"

definition exT2 :: cartridge where
  "exT2 = \<lparr>c_id = ''T2'', c_slot = 1025, c_total_cap = 2000000, c_remaining_cap = 1000000,
           c_status = ''Valid LTFS'', c_inProgress = 0, c_pool = ''p1'',
           c_state = TAPE_UNMOUNTED, requested = False\<rparr>"

definition exSched :: sched where
  "exSched = \<lparr>op = SELRECALL, reqNum = 7, pool = [], tapeId = ''T1'', driveId = [],
              mountTarget = TM_MOUNT, drives = [exD0, exD1], carts = [exT1, exT2],
              conf = [(''p1'', [''T1'', ''T2''])], subs = [], msgs = []\<rparr>"

text \<open>All drives busy with migrations; a recall for the unmounted T2 arrives.\<close>

definition exBusy :: sched where
  "exBusy = exSched\<lparr>tapeId := ''T2'',
              drives := [exD0\<lparr>busy := True, toUnblock := MIGRATION\<rparr>],
              carts := [exT1\<lparr>c_state := TAPE_INUSE\<rparr>, exT2]\<rparr>"

definition exAsked :: sched where
  "exAsked = exSched\<lparr>tapeId := ''T2'',
              drives := [exD0\<lparr>busy := True, toUnblock := SELRECALL\<rparr>],
              carts := [exT1\<lparr>c_state := TAPE_INUSE\<rparr>, exT2]\<rparr>"

definition exGhost :: sched where
  "exGhost = exSched\<lparr>op := MIGRATION, pool := ''p1'', tapeId := [],
               conf := [(''p1'', [''T9'', ''T2''])]\<rparr>"


text \<open>
  The recall of request 7 asks for the unmounted T2 while both drives are idle; in
  \<open>exPending\<close> drive D1 already carries the pending motion of that request.
\<close>

definition exWait :: sched where
  "exWait = exSched\<lparr>tapeId := ''T2''\<rparr>"

definition exPending :: sched where
  "exPending = exSched\<lparr>tapeId := ''T2'', drives := [exD0, exD1\<lparr>moveReqNum := 7\<rparr>]\<rparr>"

section \<open>Example collaborators, server and connection\<close>

text \<open>
  Modelled from the spec: an instance of what the handlers use from outside the
  sources, for the examples. The job table has \<open>(fileName, reqNum, replNum)\<close> as its
  primary key and rejects a duplicate row; a migration queues a file once for each
  replica and adds one request row for each pool, a selective recall queues it once
  and adds one request row; a request is done when none of its request rows is new
  or in progress. The numbers (\<^verbatim>\<open>UNSET\<close> as -1, the request states 0, 1, 2, the
  operations numbered as \<^const>\<open>opnum\<close> does, the file states 0, 1, 2, the code for
  terminating) are those of the examples only.
\<close>

definition insertJob :: "job_row \<Rightarrow> server \<Rightarrow> server \<times> exc option" where
  "insertJob j s =
     (if list_ex (\<lambda>r. j_fileName r = j_fileName j \<and> j_reqNum r = j_reqNum j
                      \<and> j_replNum r = j_replNum j) (jobQueue s)
      then (s, Some (OpenLTFSException SQLITE_CONSTRAINT_PRIMARYKEY))
      else (s\<lparr>jobQueue := jobQueue s @ [j]\<rparr>, None))"

fun insertJobs :: "job_row list \<Rightarrow> server \<Rightarrow> server \<times> exc option" where
  "insertJobs [] s = (s, None)"
| "insertJobs (j # js) s =
     (case insertJob j s of
        (s1, None) \<Rightarrow> insertJobs js s1
      | (s1, Some e) \<Rightarrow> (s1, Some e))"

definition newJob :: "int \<Rightarrow> string \<Rightarrow> int \<Rightarrow> nat \<Rightarrow> job_row" where
  "newJob opn filename rn repl =
     \<lparr>j_operation = opn, j_fileName = Some filename, j_reqNum = rn, j_replNum = int repl,
      j_fileSize = 0, j_tapeId = None, j_fileState = 0\<rparr>"

fun exAddJob :: "fileop \<Rightarrow> string \<Rightarrow> server \<Rightarrow> server \<times> exc option" where
  "exAddJob (Migration pid rn pools numRepl st) filename s =
     insertJobs (map (newJob 2 filename rn) [0..<numRepl]) s"
| "exAddJob (SelRecall pid rn st) filename s = insertJobs [newJob 1 filename rn 0] s"

definition newRequest :: "int \<Rightarrow> int \<Rightarrow> int \<Rightarrow> req_row" where
  "newRequest opn rn st =
     \<lparr>r_operation = opn, r_reqNum = rn, r_tapeId = None, r_targetState = st, r_state = 0\<rparr>"

fun exAddRequest :: "fileop \<Rightarrow> server \<Rightarrow> server" where
  "exAddRequest (Migration pid rn pools numRepl st) s =
     s\<lparr>requestQueue := requestQueue s @ map (\<lambda>p. newRequest 2 rn st) pools\<rparr>"
| "exAddRequest (SelRecall pid rn st) s =
     s\<lparr>requestQueue := requestQueue s @ [newRequest 1 rn st]\<rparr>"

definition countJobs :: "server \<Rightarrow> int \<Rightarrow> int \<Rightarrow> int" where
  "countJobs s rn fs =
     int (length (filter (\<lambda>j. j_reqNum j = rn \<and> j_fileState j = fs) (jobQueue s)))"

definition exQueryResult :: "fileop \<Rightarrow> int \<Rightarrow> counters \<Rightarrow> server \<Rightarrow> bool \<times> counters" where
  "exQueryResult fopt rn cnt s =
     (\<not> list_ex (\<lambda>r. r_reqNum r = rn \<and> r_state r \<noteq> 2) (requestQueue s),
      (countJobs s rn 0, countJobs s rn 1, countJobs s rn 2, countJobs s rn 3))"

definition exPoolCreate :: "string \<Rightarrow> server \<Rightarrow> server \<times> exc option" where
  "exPoolCreate p s =
     (if p \<in> set (map fst (invPools s)) then (s, Some (OpenLTFSException 1007))
      else (s\<lparr>invPools := invPools s @ [(p, [])]\<rparr>, None))"

definition exPoolDelete :: "string \<Rightarrow> server \<Rightarrow> server \<times> exc option" where
  "exPoolDelete p s =
     (case map_of (invPools s) p of
        None \<Rightarrow> (s, Some (OpenLTFSException 1008))
      | Some cs \<Rightarrow>
          if cs \<noteq> [] then (s, Some (OpenLTFSException 1010))
          else (s\<lparr>invPools := filter (\<lambda>q. fst q \<noteq> p) (invPools s)\<rparr>, None))"

definition exPoolAdd :: "string \<Rightarrow> string \<Rightarrow> server \<Rightarrow> server \<times> exc option" where
  "exPoolAdd p t s =
     (case map_of (invPools s) p of
        None \<Rightarrow> (s, Some (OpenLTFSException 1008))
      | Some cs \<Rightarrow>
          (case find (\<lambda>c. c_id c = t) (invCartridges s) of
             None \<Rightarrow> (s, Some (OpenLTFSException 1009))
           | Some c \<Rightarrow>
               if list_ex (\<lambda>q. t \<in> set (map c_id (snd q))) (invPools s)
               then (s, Some (OpenLTFSException 1005))
               else (s\<lparr>invPools := map (\<lambda>q. if fst q = p then (p, snd q @ [c]) else q)
                                      (invPools s)\<rparr>, None)))"

definition exPoolRemove :: "string \<Rightarrow> string \<Rightarrow> server \<Rightarrow> server \<times> exc option" where
  "exPoolRemove p t s =
     (case map_of (invPools s) p of
        None \<Rightarrow> (s, Some (OpenLTFSException 1008))
      | Some cs \<Rightarrow>
          if t \<notin> set (map c_id cs) then (s, Some (OpenLTFSException 1006))
          else (s\<lparr>invPools := map (\<lambda>q. if fst q = p
                                         then (p, filter (\<lambda>c. c_id c \<noteq> t) (snd q)) else q)
                                 (invPools s)\<rparr>, None))"

fun exMessages :: "msgid \<Rightarrow> string" where
  "exMessages LTFSDMS0055I = ''in use''"
| "exMessages LTFSDMS0056I = ''mounted''"
| "exMessages LTFSDMS0057I = ''moving''"
| "exMessages LTFSDMS0058I = ''unmounted''"
| "exMessages LTFSDMS0059I = ''invalid''"
| "exMessages LTFSDMS0060I = ''unknown''"
| "exMessages _ = []"

definition exOpStr :: "int \<Rightarrow> string" where
  "exOpStr n = (if n = 0 then ''tra. recall'' else if n = 1 then ''sel. recall''
                else if n = 2 then ''migration'' else ''-'')"

definition exStateStr :: "int \<Rightarrow> string" where
  "exStateStr n = (if n = 0 then ''new'' else if n = 1 then ''in progress''
                   else if n = 2 then ''completed'' else ''-'')"

definition exExt :: ext where
  "exExt = \<lparr>UNSET = - 1, LTFSDM_TERMINATING = 1014, REQ_INPROGRESS = 1, getpid = 4711,
            opStr = exOpStr, reqStateStr = exStateStr, migStateStr = exStateStr,
            sqlite3_errstr = (\<lambda>e. ''constraint failed''), messages = exMessages,
            addJob = exAddJob, addRequest = exAddRequest, queryResult = exQueryResult,
            isFsManaged = (\<lambda>fs s. Inr (fs \<in> set (managed s))),
            manageFs = (\<lambda>fs mp name s. (s\<lparr>managed := managed s @ [fs]\<rparr>, None)),
            inv_poolCreate = exPoolCreate, inv_poolDelete = exPoolDelete,
            inv_poolAdd = exPoolAdd, inv_poolRemove = exPoolRemove,
            inv_writePools = (\<lambda>s. (s, None)), inventorize = (\<lambda>s. (s, None))\<rparr>"

text \<open>
  A server with the two drives and two cartridges of above, the pools p1 to p4, no
  request and no job; and a connection on which every send succeeds.
\<close>

definition exServer :: server where
  "exServer = \<lparr>terminate = False, forcedTerminate = False, finishTerminate = False,
               connectorForcedTerminate = False, globalReqNumber = 6,
               requestQueue = [], jobQueue = [],
               invDrives = [exD0, exD1], invCartridges = [exT1, exT2],
               invPools = [(''p1'', [exT1, exT2]), (''p2'', []), (''p3'', []), (''p4'', [])],
               managed = []\<rparr>"

definition exConn :: conn where
  "exConn = \<lparr>sendFails = (\<lambda>n. False), nsent = 0, out = []\<rparr>"

text \<open>
  The server while the selective recall of request 5 is in progress, and what its
  worker does to the request queue when it completes.
\<close>

definition exRunning :: server where
  "exRunning = exServer\<lparr>requestQueue :=
      [\<lparr>r_operation = 1, r_reqNum = 5, r_tapeId = Some ''T1'', r_targetState = 0, r_state = 1\<rparr>]\<rparr>"

definition completeAll :: "server \<Rightarrow> server" where
  "completeAll s = s\<lparr>requestQueue := map (\<lambda>r. r\<lparr>r_state := 2\<rparr>) (requestQueue s)\<rparr>"

text \<open>The server after the file /m/a was queued for the selective recall of request 7.\<close>

definition exDup :: server where
  "exDup = exServer\<lparr>jobQueue := [newJob 1 ''/m/a'' 7 0]\<rparr>"

section \<open>Lemmas about the scheduler model\<close>

lemmas ex_defs = exD0_def exD1_def exT1_def exT2_def exSched_def

lemma upd_first_find_Some:
  "find P xs = Some x \<Longrightarrow>
     \<exists>i<length xs. xs ! i = x \<and> (\<forall>j<i. \<not> P (xs ! j)) \<and> upd_first P f xs = xs[i := f x]"
proof (induction xs)
  case Nil
  then show ?case by simp
next
  case (Cons a xs)
  show ?case
  proof (cases "P a")
    case True
    with Cons.prems have "a = x" by simp
    with True show ?thesis by (intro exI[of _ 0]) simp
  next
    case False
    with Cons.prems have "find P xs = Some x" by simp
    from Cons.IH[OF this] obtain i where i: "i < length xs" "xs ! i = x"
      "\<forall>j<i. \<not> P (xs ! j)" "upd_first P f xs = xs[i := f x]" by blast
    have "\<forall>j<Suc i. \<not> P ((a # xs) ! j)"
      using False i(3) by (auto simp: less_Suc_eq_0_disj)
    with i False show ?thesis by (intro exI[of _ "Suc i"]) simp
  qed
qed

lemma find_by_id_distinct:
  "find P xs = Some x \<Longrightarrow> distinct (map g xs) \<Longrightarrow> find (\<lambda>y. g y = g x) xs = Some x"
proof (induction xs)
  case Nil
  then show ?case by simp
next
  case (Cons a xs)
  then show ?case
    by (auto split: if_splits dest!: find_Some_iff[THEN iffD1] simp: image_iff)
qed

lemma find_Some_set: "find P xs = Some x \<Longrightarrow> x \<in> set xs \<and> P x"
  by (induction xs) (auto split: if_splits)

lemma list_ex_find: "list_ex P xs \<Longrightarrow> \<exists>x. find P xs = Some x"
  by (induction xs) auto

lemma distinct_filter_count:
  "distinct (filter P xs) \<longleftrightarrow> (\<forall>q. P q \<longrightarrow> length (filter (\<lambda>y. y = q) xs) \<le> 1)"
proof (induction xs)
  case Nil
  then show ?case by simp
next
  case (Cons a xs)
  have z: "\<And>q. length (filter (\<lambda>y. y = q) xs) = 0 \<longleftrightarrow> q \<notin> set xs"
    by (auto simp: filter_empty_conv)
  show ?case
  proof (cases "P a")
    case True
    have "distinct (filter P (a # xs)) \<longleftrightarrow> a \<notin> set xs \<and> distinct (filter P xs)"
      using True by simp
    also have "\<dots> \<longleftrightarrow> length (filter (\<lambda>y. y = a) xs) = 0
        \<and> (\<forall>q. P q \<longrightarrow> length (filter (\<lambda>y. y = q) xs) \<le> 1)"
      using Cons.IH z by simp
    also have "\<dots> \<longleftrightarrow> (\<forall>q. P q \<longrightarrow> length (filter (\<lambda>y. y = q) (a # xs)) \<le> 1)"
      using True by (auto simp: le_Suc_eq)
    finally show ?thesis .
  next
    case False
    then have "\<And>q. P q \<Longrightarrow> a \<noteq> q" by auto
    with False Cons.IH show ?thesis by auto
  qed
qed

lemma pendingMoves_moveReq:
  "length (pendingMoves s r p) = length (filter (\<lambda>q. q = (r, p)) (map moveReq (drives s)))"
proof -
  have "(\<lambda>d. moveReqNum d = r \<and> moveReqPool d = p) = ((\<lambda>q. q = (r, p)) \<circ> moveReq)"
    by (auto simp: moveReq_def fun_eq_iff)
  then show ?thesis
    by (simp add: pendingMoves_def filter_map)
qed

lemma atMostOneMove_iff:
  "atMostOneMove unset s \<longleftrightarrow> (\<forall>r p. r \<noteq> unset \<longrightarrow> length (pendingMoves s r p) \<le> 1)"
  by (simp add: atMostOneMove_def distinct_filter_count pendingMoves_moveReq)

lemma atMostOneMove_cong:
  "map moveReq (drives s') = map moveReq (drives s) \<Longrightarrow>
     atMostOneMove unset s' = atMostOneMove unset s"
  by (simp add: atMostOneMove_def)

lemma upd_first_keeps_moveReq:
  "(\<And>x. moveReq (f x) = moveReq x) \<Longrightarrow> map moveReq (upd_first P f xs) = map moveReq xs"
  by (induction xs) auto

lemma makeUse_moveReq:
  "makeUse did tid s = Inr s' \<Longrightarrow> map moveReq (drives s') = map moveReq (drives s)"
  by (auto simp: makeUse_def moveReq_def upd_first_keeps_moveReq split: option.splits)

lemma upd_first_other_count:
  "q \<noteq> (r0, p0) \<Longrightarrow>
     length (filter (\<lambda>y. y = q)
        (map moveReq (upd_first P (\<lambda>d. d\<lparr>moveReqNum := r0, moveReqPool := p0\<rparr>) xs)))
       \<le> length (filter (\<lambda>y. y = q) (map moveReq xs))"
  by (induction xs) (auto simp: moveReq_def)

lemma upd_first_new_count:
  "\<forall>x\<in>set xs. moveReq x \<noteq> (r0, p0) \<Longrightarrow>
     length (filter (\<lambda>y. y = (r0, p0))
        (map moveReq (upd_first P (\<lambda>d. d\<lparr>moveReqNum := r0, moveReqPool := p0\<rparr>) xs))) \<le> 1"
proof (induction xs)
  case Nil
  then show ?case by simp
next
  case (Cons a xs)
  have "filter (\<lambda>y. y = (r0, p0)) (map moveReq xs) = []"
    using Cons.prems(1) by (auto simp: filter_empty_conv)
  with Cons show ?case by (auto simp: moveReq_def)
qed

lemma moveTape_atMostOneMove:
  assumes "moveTape did tid tmop s = Inr s'" and inv: "atMostOneMove unset s"
  shows "atMostOneMove unset s'"
proof (cases "op s = MOUNT \<or> op s = MOVE \<or> op s = UNMOUNT \<or> requestExists s (reqNum s) (pool s)")
  case True
  with assms show ?thesis by (auto simp: moveTape_def split: if_splits)
next
  case False
  let ?ds = "upd_first (\<lambda>d. d_id d = did)
               (\<lambda>d. d\<lparr>moveReqNum := reqNum s, moveReqPool := pool s\<rparr>) (drives s)"
  from False assms(1) have ds: "drives s' = ?ds"
    by (auto simp: moveTape_def split: option.splits tm_operation.splits if_splits)
  from False have none: "\<forall>x\<in>set (drives s). moveReq x \<noteq> (reqNum s, pool s)"
    by (auto simp: requestExists_def list_ex_iff moveReq_def)
  show ?thesis
    unfolding atMostOneMove_iff
  proof (intro allI impI)
    fix r p assume "r \<noteq> unset"
    with inv have old: "length (filter (\<lambda>q. q = (r, p)) (map moveReq (drives s))) \<le> 1"
      by (simp add: atMostOneMove_iff pendingMoves_moveReq)
    show "length (pendingMoves s' r p) \<le> 1"
    proof (cases "(r, p) = (reqNum s, pool s)")
      case True
      then show ?thesis
        using upd_first_new_count[OF none, where P = "\<lambda>d. d_id d = did"]
        by (simp add: pendingMoves_moveReq ds)
    next
      case False
      have "length (filter (\<lambda>y. y = (r, p)) (map moveReq ?ds))
              \<le> length (filter (\<lambda>y. y = (r, p)) (map moveReq (drives s)))"
        by (rule upd_first_other_count[OF False])
      with old show ?thesis by (simp add: pendingMoves_moveReq ds)
    qed
  qed
qed

lemma suspendOperation_moveReq:
  "map moveReq (drives (suspendOperation s)) = map moveReq (drives s)"
  by (simp add: suspendOperation_def upd_first_keeps_moveReq moveReq_def)

lemma tapeResAvail_atMostOneMove:
  assumes "tapeResAvail unset s = Inr (b, s')" and inv: "atMostOneMove unset s"
  shows "atMostOneMove unset s'"
proof -
  have a: "\<And>t. atMostOneMove unset (t\<lparr>carts := X\<rparr>) = atMostOneMove unset t" for X
    by (rule atMostOneMove_cong) simp
  have b: "\<And>d. atMostOneMove unset (s\<lparr>driveId := d\<rparr>)"
    using inv atMostOneMove_cong[of "s\<lparr>driveId := d\<rparr>" s unset for d] by simp
  from assms(1) show ?thesis
    using inv b
    by (auto simp: tapeResAvail_def a
          atMostOneMove_cong[OF suspendOperation_moveReq]
          split: if_splits option.splits sum.splits prod.splits
          dest: moveTape_atMostOneMove
          dest!: makeUse_moveReq[THEN atMostOneMove_cong[where unset = unset]])
qed


lemma poolMounted_moveReq:
  "poolMounted m names u s = Inr (f, u', s') \<Longrightarrow>
     map moveReq (drives s') = map moveReq (drives s)"
proof (induction names arbitrary: u s)
  case Nil
  then show ?case by simp
next
  case (Cons n names)
  from Cons.prems show ?case
    by (auto simp: Let_def split: option.splits if_splits sum.splits
          dest!: makeUse_moveReq Cons.IH)
qed

lemma mountOnEmptyDrive_atMostOneMove:
  "mountOnEmptyDrive unset m s ds = Inr (r, s') \<Longrightarrow> atMostOneMove unset s \<Longrightarrow>
     atMostOneMove unset s'"
proof (induction ds)
  case Nil
  then show ?case by simp
next
  case (Cons d ds)
  from Cons.prems Cons.IH show ?case
    by (auto simp: Let_def split: option.splits if_splits sum.splits dest: moveTape_atMostOneMove)
qed

lemma poolResAvail_atMostOneMove:
  assumes "poolResAvail unset m s = Inr (b, s')" and inv: "atMostOneMove unset s"
  shows "atMostOneMove unset s'"
proof -
  from assms(1) obtain f u s1 where
    pm: "poolMounted m (getPoolConf s (pool s)) False s = Inr (f, u, s1)"
    by (auto simp: poolResAvail_def split: if_splits sum.splits)
  have s1: "atMostOneMove unset s1"
    using inv atMostOneMove_cong[OF poolMounted_moveReq[OF pm]] by simp
  from assms(1) pm show ?thesis
    using s1
    by (auto simp: poolResAvail_def
          split: if_splits sum.splits option.splits prod.splits
          dest: mountOnEmptyDrive_atMostOneMove moveTape_atMostOneMove)
qed

lemma resAvailTapeMove_atMostOneMove:
  assumes "resAvailTapeMove s = Inr (b, s')" and inv: "atMostOneMove unset s"
  shows "atMostOneMove unset s'"
  using assms
  by (auto simp: resAvailTapeMove_def
        split: if_splits sum.splits option.splits
        dest!: makeUse_moveReq[THEN atMostOneMove_cong[where unset = unset]])


section \<open>Lemmas about the dispatcher model\<close>

lemma send_out: "send r c = (ok, c1) \<Longrightarrow> out c1 = out c @ [Send r]"
  by (auto simp: send_def)

lemma stopLoop_success:
  "stopLoop x ib s c = (fin, ib', s', c') \<Longrightarrow>
   Send (StopResp True) \<in> set (out c') \<Longrightarrow> Send (StopResp True) \<notin> set (out c) \<Longrightarrow>
   \<not> forcedTerminate s' \<Longrightarrow> \<not> finishTerminate s' \<Longrightarrow> inProgress x s' = 0"
proof (induction ib arbitrary: s c)
  case Nil
  then show ?case
    by (auto simp: Let_def emit_def split: prod.splits if_splits dest!: send_out)
next
  case (Cons a ib)
  obtain m env where a: "a = (m, env)" by (cases a)
  from Cons.prems show ?case
    unfolding a
    by (auto simp: Let_def emit_def split: prod.splits if_splits dest!: send_out
          intro: Cons.IH)
qed

lemmas handler_defs = requestNumber_def stopMessage_def migrationMessage_def
  selRecallMessage_def statusMessage_def addMessage_def infoRequestsMessage_def
  infoJobsMessage_def infoDrivesMessage_def infoTapesMessage_def poolCreateMessage_def
  poolDeleteMessage_def poolAddMessage_def poolRemoveMessage_def infoPoolsMessage_def
  retrieveMessage_def

lemma getlines_nonempty: "cur \<noteq> [] \<or> str \<noteq> [] \<Longrightarrow> getlines cur str \<noteq> []"
  by (induction str arbitrary: cur) auto

lemma collectPools_all:
  "\<forall>p \<in> set toks. getPool s p \<noteq> None \<Longrightarrow> distinct acc \<Longrightarrow>
     \<exists>pools. collectPools s toks acc = (E_OK, pools) \<and> distinct pools
       \<and> set pools = set acc \<union> set toks"
proof (induction toks arbitrary: acc)
  case Nil
  then show ?case by simp
next
  case (Cons t toks)
  let ?acc = "if t \<in> set acc then acc else acc @ [t]"
  from Cons.prems have "distinct ?acc" by simp
  from Cons.IH[OF _ this] Cons.prems(1) obtain pools where
    "collectPools s toks ?acc = (E_OK, pools)" "distinct pools"
    "set pools = set ?acc \<union> set toks"
    by auto
  with Cons.prems(1) show ?case by (auto split: option.splits)
qed

lemma collectPools_missing:
  "\<exists>p \<in> set toks. getPool s p = None \<Longrightarrow>
     fst (collectPools s toks acc) = E_NOT_ALL_POOLS_EXIST"
  by (induction toks arbitrary: acc) (auto split: option.splits)

lemma exPools:
  "getPool exServer ''p1'' \<noteq> None" "getPool exServer ''p2'' \<noteq> None"
  "getPool exServer ''p3'' \<noteq> None" "getPool exServer ''p4'' \<noteq> None"
  "getPool exServer ''ghost'' = None"
  by (simp_all add: getPool_def exServer_def)

lemma addJobs_sent:
  "addJobs x fopt fns cont s c = (r, cont', s', c') \<Longrightarrow> sent c' = sent c"
proof (induction fns arbitrary: cont s c)
  case Nil
  then show ?case by simp
next
  case (Cons f fns)
  from Cons.prems show ?case
    by (auto simp: sent_def emit_def split: if_splits prod.splits option.splits exc.splits
          dest!: Cons.IH)
qed

lemma send_sent: "send r c = (ok, c1) \<Longrightarrow> sent c1 = sent c @ [r]"
  by (auto simp: send_def sent_def)

lemma emit_sent: "sent (emit (Msg m a) c) = sent c"
  by (simp add: sent_def emit_def)

lemma getObjects_sent:
  "getObjects x pid rn fopt ib s c = (ib', s', c') \<Longrightarrow>
     \<exists>n. sent c' = sent c @ replicate n (SendObjectsResp True rn pid)"
proof (induction ib arbitrary: s c)
  case Nil
  then show ?case by (auto simp: emit_sent split: if_splits intro: exI[of _ 0])
next
  case (Cons a ib)
  obtain m env where a: "a = (m, env)" by (cases a)
  show ?case
  proof (cases "forcedTerminate s")
    case True
    with Cons.prems a show ?thesis by (auto intro: exI[of _ 0])
  next
    case nf: False
    show ?thesis
    proof (cases m)
      case (SendObjects k filenames)
      obtain r cont s1 c1 where aj: "addJobs x fopt filenames True (env s) c = (r, cont, s1, c1)"
        by (cases "addJobs x fopt filenames True (env s) c") auto
      note c1 = addJobs_sent[OF aj]
      obtain ok c2 where sd: "send (SendObjectsResp True rn pid) c1 = (ok, c2)"
        by (cases "send (SendObjectsResp True rn pid) c1")
      note c2 = send_sent[OF sd]
      show ?thesis
      proof (cases "\<not> r \<and> ok \<and> cont")
        case True
        with Cons.prems a nf SendObjects aj sd
        have "getObjects x pid rn fopt ib s1 c2 = (ib', s', c')" by simp
        from Cons.IH[OF this] obtain n where
          "sent c' = sent c2 @ replicate n (SendObjectsResp True rn pid)" by blast
        with c1 c2 have "sent c' = sent c @ replicate (Suc n) (SendObjectsResp True rn pid)"
          by (simp add: replicate_app_Cons_same)
        then show ?thesis by blast
      next
        case False
        with Cons.prems a nf SendObjects aj sd c1 c2
        have "sent c' = sent c \<or> sent c' = sent c @ [SendObjectsResp True rn pid]"
          by (auto simp: emit_sent split: if_splits)
        then show ?thesis
          by (auto intro: exI[of _ 0] exI[of _ 1])
      qed
    qed (use Cons.prems a nf in \<open>auto simp: emit_sent intro: exI[of _ 0]\<close>)
  qed
qed

lemma addJobs_not_terminating:
  "(\<And>f t. \<not> terminate t \<Longrightarrow> \<not> terminate (fst (addJob x fopt f t))) \<Longrightarrow> \<not> terminate s \<Longrightarrow>
     fst (addJobs x fopt fns cont s c) = False"
proof (induction fns arbitrary: cont s c)
  case Nil
  then show ?case by simp
next
  case (Cons f fns)
  from Cons.prems(1)[OF Cons.prems(2), of f]
  have t: "\<not> terminate (fst (addJob x fopt f s))" .
  show ?case
    using Cons.prems(2) t Cons.IH[OF Cons.prems(1)]
    by (auto split: prod.splits option.splits exc.splits)
qed

lemma sendOrLog_sent: "sent (sendOrLog r c) = sent c @ [r]"
  by (simp add: sendOrLog_def send_def sent_def emit_def)

lemma sendRows_sent: "sent (sendRows rows c) = sent c @ rows"
  unfolding sendRows_def
  by (induction rows arbitrary: c) (simp_all add: sendOrLog_sent)

lemma exAddJob_terminate:
  "\<not> terminate t \<Longrightarrow> \<not> terminate (fst (addJob exExt (SelRecall 100 7 0) f t))"
  by (simp add: exExt_def insertJob_def)

section \<open>The scheduler: reserving a mounted tape, suspension, pending motions\<close>

text \<open>
  C6. For a request that needs a specific tape whose cartridge is in state
  \<^verbatim>\<open>TAPE_MOUNTED\<close>, \<^verbatim>\<open>tapeResAvail\<close> reserves the drive whose slot is the
  cartridge's slot: it records the drive's id as \<^verbatim>\<open>driveId\<close>, sets that drive
  busy and the cartridge to \<^verbatim>\<open>TAPE_INUSE\<close>, changes nothing else, and
  returns true. The hypotheses are what the function itself asserts
  (a tape id is given, a drive stands in the cartridge's slot, and it is not busy) and
  that drive ids identify drives.
\<close>

theorem tapeResAvail_mounted:
  assumes tid: "tapeId s \<noteq> []"
    and cart: "getCartridge s (tapeId s) = Some c"
    and mounted: "c_state c = TAPE_MOUNTED"
    and slot: "find (\<lambda>d. d_slot d = c_slot c) (drives s) = Some d"
    and free: "\<not> busy d"
    and ids: "distinct (map d_id (drives s))"
  shows "\<exists>i k. i < length (drives s) \<and> drives s ! i = d
           \<and> k < length (carts s) \<and> carts s ! k = c
           \<and> tapeResAvail unset s
               = Inr (True, s\<lparr>driveId := d_id d,
                               drives := (drives s)[i := d\<lparr>busy := True\<rparr>],
                               carts := (carts s)[k := c\<lparr>c_state := TAPE_INUSE\<rparr>]\<rparr>)"
proof -
  have byid: "find (\<lambda>x. d_id x = d_id d) (drives s) = Some d"
    using find_by_id_distinct[OF slot ids] .
  from upd_first_find_Some[OF byid, of "\<lambda>d. d\<lparr>busy := True\<rparr>"]
  obtain i where i: "i < length (drives s)" "drives s ! i = d"
    "upd_first (\<lambda>x. d_id x = d_id d) (\<lambda>d. d\<lparr>busy := True\<rparr>) (drives s) = (drives s)[i := d\<lparr>busy := True\<rparr>]"
    by blast
  from cart have cf: "find (\<lambda>x. c_id x = tapeId s) (carts s) = Some c"
    by (simp add: getCartridge_def)
  from upd_first_find_Some[OF cf, of "\<lambda>c. c\<lparr>c_state := TAPE_INUSE\<rparr>"]
  obtain k where k: "k < length (carts s)" "carts s ! k = c"
    "upd_first (\<lambda>x. c_id x = tapeId s) (\<lambda>c. c\<lparr>c_state := TAPE_INUSE\<rparr>) (carts s) = (carts s)[k := c\<lparr>c_state := TAPE_INUSE\<rparr>]"
    by blast
  have mu: "makeUse (d_id d) (tapeId s) (s\<lparr>driveId := d_id d\<rparr>)
      = Inr (s\<lparr>driveId := d_id d, drives := (drives s)[i := d\<lparr>busy := True\<rparr>],
               carts := (carts s)[k := c\<lparr>c_state := TAPE_INUSE\<rparr>]\<rparr>)"
    using byid cf i(3) k(3) by (simp add: makeUse_def getDrive_def getCartridge_def)
  have "tapeResAvail unset s
      = Inr (True, s\<lparr>driveId := d_id d, drives := (drives s)[i := d\<lparr>busy := True\<rparr>],
               carts := (carts s)[k := c\<lparr>c_state := TAPE_INUSE\<rparr>]\<rparr>)"
    using tid cart mounted slot free mu by (simp add: tapeResAvail_def)
  with i k show ?thesis by auto
qed

theorem tapeResAvail_mounted_witness:
  "tapeId exSched \<noteq> [] \<and> getCartridge exSched (tapeId exSched) = Some exT1
   \<and> c_state exT1 = TAPE_MOUNTED
   \<and> find (\<lambda>d. d_slot d = c_slot exT1) (drives exSched) = Some exD0
   \<and> \<not> busy exD0 \<and> distinct (map d_id (drives exSched))
   \<and> tapeResAvail (- 1) exSched
       = Inr (True, exSched\<lparr>driveId := ''D0'',
                            drives := [exD0\<lparr>busy := True\<rparr>, exD1],
                            carts := [exT1\<lparr>c_state := TAPE_INUSE\<rparr>, exT2]\<rparr>)"
proof -
  have h1: "tapeId exSched \<noteq> []" by (simp add: ex_defs)
  have h2: "getCartridge exSched (tapeId exSched) = Some exT1"
    by (simp add: ex_defs getCartridge_def)
  have h3: "c_state exT1 = TAPE_MOUNTED" by (simp add: ex_defs)
  have h4: "find (\<lambda>d. d_slot d = c_slot exT1) (drives exSched) = Some exD0"
    by (simp add: ex_defs)
  have h5: "\<not> busy exD0" by (simp add: ex_defs)
  have h6: "distinct (map d_id (drives exSched))" by (simp add: ex_defs)
  from tapeResAvail_mounted[OF h1 h2 h3 h4 h5 h6, of "- 1"] obtain i k where
    ik: "i < length (drives exSched)" "drives exSched ! i = exD0"
      "k < length (carts exSched)" "carts exSched ! k = exT1"
    and r: "tapeResAvail (- 1) exSched
       = Inr (True, exSched\<lparr>driveId := d_id exD0,
                            drives := (drives exSched)[i := exD0\<lparr>busy := True\<rparr>],
                            carts := (carts exSched)[k := exT1\<lparr>c_state := TAPE_INUSE\<rparr>]\<rparr>)"
    by blast
  from ik(1,2) have i0: "i = 0" by (auto simp: ex_defs less_Suc_eq)
  from ik(3,4) have k0: "k = 0" by (auto simp: ex_defs less_Suc_eq)
  from r have "tapeResAvail (- 1) exSched
       = Inr (True, exSched\<lparr>driveId := ''D0'',
                            drives := [exD0\<lparr>busy := True\<rparr>, exD1],
                            carts := [exT1\<lparr>c_state := TAPE_INUSE\<rparr>, exT2]\<rparr>)"
    unfolding i0 k0 by (simp add: exSched_def exD0_def)
  with h1 h2 h3 h4 h5 h6 show ?thesis by simp
qed

text \<open>
  C7. When \<^verbatim>\<open>tapeResAvail\<close> reaches its last stage (the cartridge is neither
  moving, in use nor mounted, the search for a free drive and the search for a tape to
  unmount found nothing), it returns false. If the cartridge is already requested, or
  if no drive has a \<^verbatim>\<open>toUnblock\<close> greater than the operation, nothing is
  changed. Otherwise the first drive (in iteration order) whose \<^verbatim>\<open>toUnblock\<close>
  is greater than the operation gets the operation as its \<^verbatim>\<open>toUnblock\<close>, the
  cartridge becomes requested, and nothing else changes.
\<close>

theorem tapeResAvail_suspend:
  assumes tid: "tapeId s \<noteq> []"
    and cart: "getCartridge s (tapeId s) = Some c"
    and st: "c_state c \<noteq> TAPE_MOVING" "c_state c \<noteq> TAPE_INUSE" "c_state c \<noteq> TAPE_MOUNTED"
    and nofree: "freeDrive unset s c = None"
    and nounmount: "tapeToUnmount unset s (drives s) = None"
  shows "\<exists>s'. tapeResAvail unset s = Inr (False, s') \<and>
           (if requested c \<or> \<not> list_ex (\<lambda>d. opnum (op s) < opnum (toUnblock d)) (drives s)
            then s' = s
            else \<exists>i k. i < length (drives s)
                   \<and> opnum (op s) < opnum (toUnblock (drives s ! i))
                   \<and> (\<forall>j<i. \<not> opnum (op s) < opnum (toUnblock (drives s ! j)))
                   \<and> k < length (carts s) \<and> carts s ! k = c
                   \<and> s' = s\<lparr>drives := (drives s)[i := (drives s ! i)\<lparr>toUnblock := op s\<rparr>],
                            carts := (carts s)[k := c\<lparr>requested := True\<rparr>]\<rparr>)"
proof -
  have eq: "tapeResAvail unset s = Inr (False, if requested c then s else suspendOperation s)"
    using tid cart st nofree nounmount by (simp add: tapeResAvail_def)
  show ?thesis
  proof (cases "requested c \<or> \<not> list_ex (\<lambda>d. opnum (op s) < opnum (toUnblock d)) (drives s)")
    case True
    then show ?thesis using eq by (auto simp: suspendOperation_def)
  next
    case False
    then have ex: "list_ex (\<lambda>d. opnum (op s) < opnum (toUnblock d)) (drives s)" and nr: "\<not> requested c"
      by auto
    from list_ex_find[OF ex] obtain d where
      d: "find (\<lambda>d. opnum (op s) < opnum (toUnblock d)) (drives s) = Some d" by blast
    from upd_first_find_Some[OF d, of "\<lambda>d. d\<lparr>toUnblock := op s\<rparr>"] obtain i where
      i: "i < length (drives s)" "drives s ! i = d"
         "\<forall>j<i. \<not> opnum (op s) < opnum (toUnblock (drives s ! j))"
         "upd_first (\<lambda>d. opnum (op s) < opnum (toUnblock d)) (\<lambda>d. d\<lparr>toUnblock := op s\<rparr>) (drives s)
            = (drives s)[i := d\<lparr>toUnblock := op s\<rparr>]"
      by blast
    from cart have cf: "find (\<lambda>x. c_id x = tapeId s) (carts s) = Some c"
      by (simp add: getCartridge_def)
    from upd_first_find_Some[OF cf, of "\<lambda>c. c\<lparr>requested := True\<rparr>"] obtain k where
      k: "k < length (carts s)" "carts s ! k = c"
         "upd_first (\<lambda>x. c_id x = tapeId s) (\<lambda>c. c\<lparr>requested := True\<rparr>) (carts s)
            = (carts s)[k := c\<lparr>requested := True\<rparr>]"
      by blast
    have gt: "opnum (op s) < opnum (toUnblock (drives s ! i))"
      using find_Some_set[OF d] i(2) by simp
    have "suspendOperation s = s\<lparr>drives := (drives s)[i := (drives s ! i)\<lparr>toUnblock := op s\<rparr>],
                            carts := (carts s)[k := c\<lparr>requested := True\<rparr>]\<rparr>"
      using ex i(2,4) k(3) by (simp add: suspendOperation_def)
    with eq nr False i(1,3) k(1,2) gt show ?thesis
      by (simp del: list_ex_iff) blast
  qed
qed

theorem tapeResAvail_suspend_witness:
  "tapeId exBusy \<noteq> [] \<and> getCartridge exBusy (tapeId exBusy) = Some exT2
   \<and> c_state exT2 \<noteq> TAPE_MOVING \<and> c_state exT2 \<noteq> TAPE_INUSE
   \<and> c_state exT2 \<noteq> TAPE_MOUNTED
   \<and> freeDrive (- 1) exBusy exT2 = None
   \<and> tapeToUnmount (- 1) exBusy (drives exBusy) = None
   \<and> tapeResAvail (- 1) exBusy
       = Inr (False, exBusy\<lparr>drives := [exD0\<lparr>busy := True, toUnblock := SELRECALL\<rparr>],
                            carts := [exT1\<lparr>c_state := TAPE_INUSE\<rparr>,
                                      exT2\<lparr>requested := True\<rparr>]\<rparr>)"
proof -
  have h1: "tapeId exBusy \<noteq> []" by (simp add: ex_defs exBusy_def)
  have h2: "getCartridge exBusy (tapeId exBusy) = Some exT2"
    by (simp add: ex_defs exBusy_def getCartridge_def)
  have h3: "c_state exT2 \<noteq> TAPE_MOVING" "c_state exT2 \<noteq> TAPE_INUSE"
    "c_state exT2 \<noteq> TAPE_MOUNTED"
    by (simp_all add: ex_defs)
  have h4: "freeDrive (- 1) exBusy exT2 = None"
    by (simp add: ex_defs exBusy_def freeDrive_def driveIsUsable_def)
  have h5: "tapeToUnmount (- 1) exBusy (drives exBusy) = None"
    by (simp add: ex_defs exBusy_def driveIsUsable_def)
  have ds: "drives exBusy = [exD0\<lparr>busy := True, toUnblock := MIGRATION\<rparr>]"
    and cs: "carts exBusy = [exT1\<lparr>c_state := TAPE_INUSE\<rparr>, exT2]"
    and o: "op exBusy = SELRECALL"
    by (simp_all add: exBusy_def exSched_def)
  from tapeResAvail_suspend[OF h1 h2 h3 h4 h5] obtain s' where
    r: "tapeResAvail (- 1) exBusy = Inr (False, s')"
    and s': "\<exists>i k. i < length (drives exBusy)
               \<and> k < length (carts exBusy) \<and> carts exBusy ! k = exT2
               \<and> s' = exBusy\<lparr>drives := (drives exBusy)[i := (drives exBusy ! i)\<lparr>toUnblock := op exBusy\<rparr>],
                               carts := (carts exBusy)[k := exT2\<lparr>requested := True\<rparr>]\<rparr>"
    by (auto simp: ds o exT2_def)
  then obtain i k where ik: "i < length (drives exBusy)" "k < length (carts exBusy)"
    "carts exBusy ! k = exT2"
    "s' = exBusy\<lparr>drives := (drives exBusy)[i := (drives exBusy ! i)\<lparr>toUnblock := op exBusy\<rparr>],
                   carts := (carts exBusy)[k := exT2\<lparr>requested := True\<rparr>]\<rparr>"
    by blast
  from ik(1) have i0: "i = 0" by (simp add: ds)
  from ik(2,3) have k1: "k = 1"
    by (auto simp: cs ex_defs less_Suc_eq)
  from ik(4) have "s' = exBusy\<lparr>drives := [exD0\<lparr>busy := True, toUnblock := SELRECALL\<rparr>],
                            carts := [exT1\<lparr>c_state := TAPE_INUSE\<rparr>,
                                      exT2\<lparr>requested := True\<rparr>]\<rparr>"
    unfolding i0 k1 by (simp add: ds cs o)
  with r h1 h2 h3 h4 h5 show ?thesis by simp
qed

text \<open>
  The claim as stated fails where no drive has a greater \<^verbatim>\<open>toUnblock\<close>: the only
  drive was already asked to yield to a selective recall, a second selective recall
  for the unrequested T2 changes nothing, and T2 stays unrequested.
\<close>

theorem tapeResAvail_suspend_counterexample:
  "tapeResAvail (- 1) exAsked = Inr (False, exAsked)
   \<and> map requested (carts exAsked) = [False, False]
   \<and> map toUnblock (drives exAsked) = [SELRECALL] \<and> op exAsked = SELRECALL"
  by (simp add: ex_defs exAsked_def tapeResAvail_def getCartridge_def freeDrive_def
        driveIsUsable_def suspendOperation_def)

text \<open>
  C8. The invariant \<^const>\<open>atMostOneMove\<close> says that for every request number other
  than \<^verbatim>\<open>Const::UNSET\<close> and every pool, at most one drive carries that pair in
  its move-request fields. It holds while no drive has a pending motion, and the
  scheduler keeps it: \<^verbatim>\<open>moveTape\<close> does nothing when \<^verbatim>\<open>requestExists\<close> is true for the current request and pool, and both
  \<^verbatim>\<open>moveTape\<close> and a whole resource check \<^verbatim>\<open>resAvail\<close> lead from a state
  with the invariant to a state with it.
\<close>

theorem resAvail_atMostOneMove:
  "(atMostOneMove unset s \<longleftrightarrow> (\<forall>r p. r \<noteq> unset \<longrightarrow> length (pendingMoves s r p) \<le> 1)) \<and>
   (list_all (\<lambda>d. moveReqNum d = unset) (drives s) \<longrightarrow> atMostOneMove unset s) \<and>
   (requestExists s (reqNum s) (pool s) \<longrightarrow> moveTape did tid tmop s = Inr s) \<and>
   (atMostOneMove unset s \<and> moveTape did tid tmop s = Inr s1 \<longrightarrow> atMostOneMove unset s1) \<and>
   (atMostOneMove unset s \<and> resAvail unset minFileSize s = Inr (b, s2) \<longrightarrow> atMostOneMove unset s2)"
proof (intro conjI impI)
  show "atMostOneMove unset s \<longleftrightarrow> (\<forall>r p. r \<noteq> unset \<longrightarrow> length (pendingMoves s r p) \<le> 1)"
    by (rule atMostOneMove_iff)
next
  assume "list_all (\<lambda>d. moveReqNum d = unset) (drives s)"
  then have "filter (\<lambda>q. fst q \<noteq> unset) (map moveReq (drives s)) = []"
    by (auto simp: filter_empty_conv list_all_iff moveReq_def)
  then show "atMostOneMove unset s" by (simp add: atMostOneMove_def)
next
  assume "requestExists s (reqNum s) (pool s)"
  then show "moveTape did tid tmop s = Inr s" by (simp add: moveTape_def)
next
  assume "atMostOneMove unset s \<and> moveTape did tid tmop s = Inr s1"
  then show "atMostOneMove unset s1" using moveTape_atMostOneMove by blast
next
  assume a: "atMostOneMove unset s \<and> resAvail unset minFileSize s = Inr (b, s2)"
  then show "atMostOneMove unset s2"
    using resAvailTapeMove_atMostOneMove[of s b s2 unset]
      poolResAvail_atMostOneMove[of unset minFileSize s b s2]
      tapeResAvail_atMostOneMove[of unset s b s2]
    by (auto simp: resAvail_def split: if_splits)
qed

theorem resAvail_atMostOneMove_witness:
  "requestExists exPending (reqNum exPending) (pool exPending)
   \<and> moveTape ''D0'' ''T2'' TM_MOUNT exPending = Inr exPending
   \<and> list_all (\<lambda>d. moveReqNum d = - 1) (drives exWait)
   \<and> atMostOneMove (- 1) exWait
   \<and> resAvail (- 1) 0 exWait
       = Inr (False, exWait\<lparr>msgs := [(LTFSDMS0111I, [Num 7, Str ''T2''])],
                            drives := [exD0, exD1\<lparr>moveReqNum := 7\<rparr>],
                            subs := [TapeMoverAddRequest ''mnt.T2'' ''D1'' ''T2'' TM_MOUNT]\<rparr>)
   \<and> atMostOneMove (- 1)
        (exWait\<lparr>msgs := [(LTFSDMS0111I, [Num 7, Str ''T2''])],
                drives := [exD0, exD1\<lparr>moveReqNum := 7\<rparr>],
                subs := [TapeMoverAddRequest ''mnt.T2'' ''D1'' ''T2'' TM_MOUNT]\<rparr>)"
proof -
  let ?s2 = "exWait\<lparr>msgs := [(LTFSDMS0111I, [Num 7, Str ''T2''])],
                    drives := [exD0, exD1\<lparr>moveReqNum := 7\<rparr>],
                    subs := [TapeMoverAddRequest ''mnt.T2'' ''D1'' ''T2'' TM_MOUNT]\<rparr>"
  note at_pending = resAvail_atMostOneMove[where s = exPending and did = "''D0''"
      and tid = "''T2''" and tmop = TM_MOUNT]
  note at_wait = resAvail_atMostOneMove[where s = exWait and unset = "- 1"
      and minFileSize = 0 and b = False and ?s2.0 = ?s2]
  have h1: "requestExists exPending (reqNum exPending) (pool exPending)"
    by (simp add: ex_defs exPending_def requestExists_def)
  have h0: "list_all (\<lambda>d. moveReqNum d = - 1) (drives exWait)"
    by (simp add: ex_defs exWait_def)
  have h3: "resAvail (- 1) 0 exWait = Inr (False, ?s2)"
    by (simp add: ex_defs exWait_def resAvail_def tapeResAvail_def getCartridge_def
          freeDrive_def driveIsUsable_def mountedInSlot_def moveTape_def requestExists_def
          getDrive_def)
  from at_pending h1
  have a: "moveTape ''D0'' ''T2'' TM_MOUNT exPending = Inr exPending" by blast
  from at_wait h0 have h2: "atMostOneMove (- 1) exWait" by blast
  from at_wait h2 h3 have b: "atMostOneMove (- 1) ?s2" by blast
  from h1 a h0 h2 h3 b show ?thesis by simp
qed

text \<open>
  C10. A tape name of the pool that the inventory does not know: after the branch
  that reports it and removes it from the pool configuration,
  \<^verbatim>\<open>poolResAvail\<close> goes on to read the state through the null handle. At a pool
  that lists the unknown T9 before T2 the function ends in that fault instead of going
  on with T2.
\<close>

theorem poolResAvail_null_handle:
  "getCartridge exGhost ''T9'' = None \<and> poolResAvail (- 1) 4096 exGhost = Inl NullDeref
   \<and> resAvail (- 1) 4096 exGhost = Inl NullDeref"
  by (simp add: ex_defs exGhost_def resAvail_def poolResAvail_def getPoolConf_def getCartridge_def)

section \<open>The dispatcher: stop, session key, pools of a migration, duplicates, info streams\<close>

text \<open>
  C1. Whenever the stop handler has replied with a stop response of success and, at
  that moment, neither \<^verbatim>\<open>forcedTerminate\<close> nor \<^verbatim>\<open>finishTerminate\<close> is set,
  no row of the request queue is in state \<^verbatim>\<open>REQ_INPROGRESS\<close>. The reply of
  success is the last thing the loop does to the connection, so the state returned is
  the state at that moment. (With one of the two flags set the handler does not read
  the queue.)
\<close>

theorem stopMessage_success:
  assumes "stopMessage x key keySent forced finish ib s c = (ib', s', c')"
    and "Send (StopResp True) \<in> set (out c')"
    and "Send (StopResp True) \<notin> set (out c)"
    and "\<not> forcedTerminate s'" and "\<not> finishTerminate s'"
  shows "\<forall>r \<in> set (requestQueue s'). r_state r \<noteq> REQ_INPROGRESS x"
proof -
  have "inProgress x s' = 0"
  proof (cases "key = keySent")
    case False
    with assms show ?thesis by (auto simp: stopMessage_def emit_def wrongKey_def)
  next
    case True
    define s3 where "s3 = (let s1 = s\<lparr>terminate := True\<rparr>;
             s2 = (if forced then s1\<lparr>forcedTerminate := True, connectorForcedTerminate := True\<rparr>
                   else s1)
         in (if finish then s2\<lparr>finishTerminate := True\<rparr> else s2))"
    define c3 where "c3 = emit UnlockTermmtx (emit NotifyTermcond
         (if finish then emit NotifyUpdcond (emit (Msg LTFSDMS0009I []) c)
          else emit (Msg LTFSDMS0009I []) c))"
    obtain fin ib1 s4 c4 where l: "stopLoop x ib s3 c3 = (fin, ib1, s4, c4)"
      by (cases "stopLoop x ib s3 c3") auto
    from assms(1) True l have r: "ib' = ib1" "s' = s4"
      "c' = (if fin then emit KillSIGUSR1 (emit NotifyScheduler c4) else c4)"
      by (auto simp: stopMessage_def Let_def s3_def c3_def split: if_splits)
    from assms(2) r(3) have "Send (StopResp True) \<in> set (out c4)"
      by (auto simp: emit_def split: if_splits)
    moreover from assms(3) have "Send (StopResp True) \<notin> set (out c3)"
      by (auto simp: emit_def c3_def)
    ultimately show ?thesis using stopLoop_success[OF l] assms(4,5) r(2) by blast
  qed
  then show ?thesis by (simp add: inProgress_def filter_empty_conv)
qed

theorem stopMessage_success_witness:
  "stopMessage exExt 42 42 False False [(StopRequest 42 6 False False, completeAll)]
       exRunning exConn
     = ([], completeAll (exRunning\<lparr>terminate := True\<rparr>),
        exConn\<lparr>nsent := 2,
               out := [Msg LTFSDMS0009I [], NotifyTermcond, UnlockTermmtx,
                       Send (StopResp False), Send (StopResp True),
                       NotifyScheduler, KillSIGUSR1]\<rparr>)
   \<and> \<not> forcedTerminate (completeAll (exRunning\<lparr>terminate := True\<rparr>))
   \<and> \<not> finishTerminate (completeAll (exRunning\<lparr>terminate := True\<rparr>))
   \<and> inProgress exExt (completeAll (exRunning\<lparr>terminate := True\<rparr>)) = 0"
proof -
  let ?s = "completeAll (exRunning\<lparr>terminate := True\<rparr>)"
  let ?c = "exConn\<lparr>nsent := 2,
               out := [Msg LTFSDMS0009I [], NotifyTermcond, UnlockTermmtx,
                       Send (StopResp False), Send (StopResp True),
                       NotifyScheduler, KillSIGUSR1]\<rparr>"
  have r: "stopMessage exExt 42 42 False False [(StopRequest 42 6 False False, completeAll)]
             exRunning exConn = ([], ?s, ?c)"
    by (simp add: stopMessage_def exRunning_def exServer_def exConn_def emit_def send_def
          Let_def inProgress_def exExt_def completeAll_def)
  have h2: "Send (StopResp True) \<in> set (out ?c)" by simp
  have h3: "Send (StopResp True) \<notin> set (out exConn)" by (simp add: exConn_def)
  have h4: "\<not> forcedTerminate ?s" and h5: "\<not> finishTerminate ?s"
    by (simp_all add: completeAll_def exRunning_def exServer_def)
  from stopMessage_success[OF r h2 h3 h4 h5]
  have "inProgress exExt ?s = 0" by (simp add: inProgress_def filter_empty_conv)
  with r h4 h5 show ?thesis by simp
qed

text \<open>
  The claim as stated, for a forced stop as well, fails: with the recall of request 5
  in progress, a forced stop is answered with success at once.
\<close>

theorem stopMessage_forced_counterexample:
  "stopMessage exExt 42 42 True False [] exRunning exConn
     = ([], exRunning\<lparr>terminate := True, forcedTerminate := True,
                       connectorForcedTerminate := True\<rparr>,
        exConn\<lparr>nsent := 1,
               out := [Msg LTFSDMS0009I [], NotifyTermcond, UnlockTermmtx,
                       Send (StopResp True), NotifyScheduler, KillSIGUSR1]\<rparr>)
   \<and> map r_state (requestQueue (exRunning\<lparr>terminate := True, forcedTerminate := True,
                       connectorForcedTerminate := True\<rparr>)) = [REQ_INPROGRESS exExt]"
  by (simp add: stopMessage_def exRunning_def exServer_def exConn_def emit_def send_def
        Let_def inProgress_def exExt_def)

text \<open>
  C2. Every message that \<^verbatim>\<open>MessageParser::run\<close> dispatches to a handler, and
  every status poll inside \<^verbatim>\<open>reqStatusMessage\<close>, is first checked for the
  session key: with a key other than the server's the handler returns having written
  the message LTFSDMS0008E and nothing else; it sends no response, reads no further
  message and leaves the shared state and the request number as they are (for a poll:
  as the other threads left it).
\<close>

theorem wrong_key_no_effect:
  "(hasHandler m \<and> keyOf m = Some k \<and> k \<noteq> key \<longrightarrow>
      handle x key lrn m ib s c = (lrn, ib, s, emit (wrongKey k) c))
   \<and> (fst (reqstatusrequest m) \<noteq> key \<longrightarrow>
      reqStatusMessage x key fopt cnt ((m, env) # ib) s c
        = (ib, env s, emit (wrongKey (fst (reqstatusrequest m))) c))"
proof (intro conjI impI)
  assume "hasHandler m \<and> keyOf m = Some k \<and> k \<noteq> key"
  then show "handle x key lrn m ib s c = (lrn, ib, s, emit (wrongKey k) c)"
    by (cases m) (auto simp: handler_defs)
next
  assume "fst (reqstatusrequest m) \<noteq> key"
  then show "reqStatusMessage x key fopt cnt ((m, env) # ib) s c
        = (ib, env s, emit (wrongKey (fst (reqstatusrequest m))) c)"
    by (cases "reqstatusrequest m") auto
qed

theorem wrong_key_no_effect_witness:
  "hasHandler (StatusRequest 41) \<and> keyOf (StatusRequest 41) = Some 41 \<and> (41 :: 64 word) \<noteq> 42
   \<and> handle exExt 42 (- 1) (StatusRequest 41) [] exServer exConn
        = (- 1, [], exServer, exConn\<lparr>out := [Msg LTFSDMS0008E [Num 41]]\<rparr>)
   \<and> fst (reqstatusrequest (ReqStatusRequest 41 7 100)) \<noteq> 42
   \<and> reqStatusMessage exExt 42 (SelRecall 100 7 0) (0, 0, 0, 0)
        [(ReqStatusRequest 41 7 100, id)] exServer exConn
        = ([], exServer, exConn\<lparr>out := [Msg LTFSDMS0008E [Num 41]]\<rparr>)"
proof -
  have e: "emit (wrongKey 41) exConn = exConn\<lparr>out := [Msg LTFSDMS0008E [Num 41]]\<rparr>"
    by (simp add: emit_def wrongKey_def exConn_def)
  from wrong_key_no_effect[of "StatusRequest 41" 41 42 exExt "- 1" "[]" exServer exConn]
  have a: "handle exExt 42 (- 1) (StatusRequest 41) [] exServer exConn
        = (- 1, [], exServer, exConn\<lparr>out := [Msg LTFSDMS0008E [Num 41]]\<rparr>)"
    by (simp add: e)
  from wrong_key_no_effect[of "ReqStatusRequest 41 7 100" 41 42 exExt "- 1" "[]" exServer exConn
      "SelRecall 100 7 0" "(0, 0, 0, 0)" id]
  have b: "reqStatusMessage exExt 42 (SelRecall 100 7 0) (0, 0, 0, 0)
        [(ReqStatusRequest 41 7 100, id)] exServer exConn
        = ([], exServer, exConn\<lparr>out := [Msg LTFSDMS0008E [Num 41]]\<rparr>)"
    by (simp add: e)
  from a b show ?thesis by simp
qed

text \<open>
  The claim as stated, for the batches of file names as well, fails:
  \<^verbatim>\<open>getObjects\<close> is not given the server's key and compares nothing. After a
  selective recall request with the right key 42, a batch that carries the key 41 is
  accepted: its file is queued and the batch is answered with success.
\<close>

theorem sendobjects_key_counterexample:
  "run exExt 42 (- 1)
       [(SelRecRequest 42 7 100 0, id), (SendObjects 41 [''/m/a'', []], id)] exServer exConn
     = ([], exServer\<lparr>jobQueue := [newJob 1 ''/m/a'' 7 0],
                     requestQueue := [newRequest 1 7 0]\<rparr>,
        exConn\<lparr>nsent := 2,
               out := [NotifyTermcond, UnlockTermmtx, Send (SelRecRequestResp 0 7 100),
                       Send (SendObjectsResp True 7 100), Msg LTFSDMS0006E [], CloseAcc]\<rparr>)"
  by (simp add: selRecallMessage_def serveRequest_def exServer_def exConn_def emit_def send_def
        exExt_def insertJob_def LTFSDM_OK_def)

text \<open>
  C3. For a migration request with the server's key that arrives while the server
  is not terminating and names only pools that exist: the pools of the
  \<^verbatim>\<open>Migration\<close> object are the distinct names of the pools field, and
  \<^verbatim>\<open>numRepl\<close> is their number, at least 1 unless the field is empty. If
  there are more than three, the response carries the error 1011
  (\<^verbatim>\<open>LTFSDM_WRONG_POOLNUM\<close>) and the handler returns: it reads no further message
  of the connection, calls neither \<^verbatim>\<open>addJob\<close> nor \<^verbatim>\<open>addRequest\<close> and
  leaves the shared state as it is. Otherwise the response carries 0 and the request
  is served with at most three replicas.
\<close>

theorem migration_pool_number:
  assumes run: "\<not> terminate s"
    and known: "\<forall>p \<in> set (getlines [] poolstr). getPool s p \<noteq> None"
  shows "\<exists>pools. distinct pools \<and> set pools = set (getlines [] poolstr)
           \<and> (poolstr \<noteq> [] \<longrightarrow> 1 \<le> length pools)
           \<and> (if 3 < length pools
               then migrationMessage x key key rn pid poolstr st ib s c
                      = (ib, s, sendOrLog (MigRequestResp 1011 rn pid) c)
               else migrationMessage x key key rn pid poolstr st ib s c
                      = (case send (MigRequestResp 0 rn pid) c of
                           (ok, c1) \<Rightarrow>
                             if ok then serveRequest x key pid rn
                                          (Migration pid rn pools (length pools) st) ib s c1
                             else (ib, s, emit (Msg LTFSDMS0007E []) c1)))"
proof -
  from collectPools_all[OF known, of "[]"] obtain pools where
    cp: "collectPools s (getlines [] poolstr) [] = (E_OK, pools)"
    and d: "distinct pools" and st: "set pools = set (getlines [] poolstr)"
    by auto
  have ne: "poolstr \<noteq> [] \<longrightarrow> 1 \<le> length pools"
  proof
    assume "poolstr \<noteq> []"
    then have "getlines [] poolstr \<noteq> []" by (simp add: getlines_nonempty)
    then have "set pools \<noteq> {}" using st by simp
    then show "1 \<le> length pools" by (cases pools) auto
  qed
  have m: "(if 3 < length pools
               then migrationMessage x key key rn pid poolstr st ib s c
                      = (ib, s, sendOrLog (MigRequestResp 1011 rn pid) c)
               else migrationMessage x key key rn pid poolstr st ib s c
                      = (case send (MigRequestResp 0 rn pid) c of
                           (ok, c1) \<Rightarrow>
                             if ok then serveRequest x key pid rn
                                          (Migration pid rn pools (length pools) st) ib s c1
                             else (ib, s, emit (Msg LTFSDMS0007E []) c1)))"
    using run cp
    by (auto simp: migrationMessage_def newMigration_def sendOrLog_def LTFSDM_OK_def
          LTFSDM_WRONG_POOLNUM_def split: prod.splits)
  from d st ne m show ?thesis by blast
qed

theorem migration_pool_number_witness:
  "\<not> terminate exServer
   \<and> map (\<lambda>p. getPool exServer p \<noteq> None) (getlines [] ''p1,p2,p3,p4'')
       = [True, True, True, True]
   \<and> migrationMessage exExt 42 42 7 100 ''p1,p2,p3,p4'' 0 [] exServer exConn
       = ([], exServer, exConn\<lparr>nsent := 1, out := [Send (MigRequestResp 1011 7 100)]\<rparr>)"
proof -
  have h1: "\<not> terminate exServer" by (simp add: exServer_def)
  have g: "getlines [] ''p1,p2,p3,p4'' = [''p1'', ''p2'', ''p3'', ''p4'']" by simp
  have h2: "\<forall>p \<in> set (getlines [] ''p1,p2,p3,p4''). getPool exServer p \<noteq> None"
    unfolding g using exPools by simp
  from migration_pool_number[OF h1 h2, of exExt 42 7 100 0 "[]" exConn] obtain pools where
    p: "distinct pools" "set pools = set (getlines [] ''p1,p2,p3,p4'')"
    "if 3 < length pools
       then migrationMessage exExt 42 42 7 100 ''p1,p2,p3,p4'' 0 [] exServer exConn
              = ([], exServer, sendOrLog (MigRequestResp 1011 7 100) exConn)
       else migrationMessage exExt 42 42 7 100 ''p1,p2,p3,p4'' 0 [] exServer exConn
              = (case send (MigRequestResp 0 7 100) exConn of
                   (ok, c1) \<Rightarrow>
                     if ok then serveRequest exExt 42 100 7
                                  (Migration 100 7 pools (length pools) 0) [] exServer c1
                     else ([], exServer, emit (Msg LTFSDMS0007E []) c1))"
    by blast
  from p(1,2) have "length pools = card (set (getlines [] ''p1,p2,p3,p4''))"
    using distinct_card by fastforce
  also have "\<dots> = 4" unfolding g by simp
  finally have "3 < length pools" by simp
  with p(3) have "migrationMessage exExt 42 42 7 100 ''p1,p2,p3,p4'' 0 [] exServer exConn
              = ([], exServer, sendOrLog (MigRequestResp 1011 7 100) exConn)" by simp
  moreover have "sendOrLog (MigRequestResp 1011 7 100) exConn
      = exConn\<lparr>nsent := 1, out := [Send (MigRequestResp 1011 7 100)]\<rparr>"
    by (simp add: sendOrLog_def send_def exConn_def)
  ultimately show ?thesis using h1 exPools by simp
qed

text \<open>
  The claim as stated fails in two ways. A request that names four distinct pools
  the last of which does not exist is answered with 1012, not 1011 (the names are
  checked first). And for an empty pools field the request is accepted with
  \<^verbatim>\<open>numRepl\<close> 0: the objects are received and answered, and with no
  replica nothing is queued.
\<close>

theorem migration_pool_number_counterexample:
  "migrationMessage exExt 42 42 7 100 ''p1,p2,p3,ghost'' 0 [] exServer exConn
       = ([], exServer, exConn\<lparr>nsent := 1, out := [Send (MigRequestResp 1012 7 100)]\<rparr>)
   \<and> newMigration exServer 100 7 [] 0 = (E_OK, Migration 100 7 [] 0 0)
   \<and> migrationMessage exExt 42 42 7 100 [] 0 [(SendObjects 42 [''/m/a'', []], id)]
         exServer exConn
       = ([], exServer,
          exConn\<lparr>nsent := 2,
                 out := [Send (MigRequestResp 0 7 100), Send (SendObjectsResp True 7 100),
                         Msg LTFSDMS0006E []]\<rparr>)"
  by (simp add: migrationMessage_def newMigration_def serveRequest_def exPools send_def
        emit_def exConn_def exServer_def getPool_def exExt_def
        LTFSDM_NOT_ALL_POOLS_EXIST_def LTFSDM_OK_def)

text \<open>
  C4. For a migration request with the server's key that arrives while the server
  is not terminating and whose pools field names a pool that does not exist, the
  response carries the error 1012 (\<^verbatim>\<open>LTFSDM_NOT_ALL_POOLS_EXIST\<close>) and the
  handler returns: the messages of the connection are left unread (the loop that
  receives the objects is not entered) and the shared state is as before (no job and
  no request row is added), whatever the collaborators do.
\<close>

theorem migration_unknown_pool:
  assumes run: "\<not> terminate s"
    and ghost: "\<exists>p \<in> set (getlines [] poolstr). getPool s p = None"
  shows "migrationMessage x key key rn pid poolstr st ib s c
           = (ib, s, sendOrLog (MigRequestResp 1012 rn pid) c)"
proof -
  obtain e pools where cp: "collectPools s (getlines [] poolstr) [] = (e, pools)"
    by (cases "collectPools s (getlines [] poolstr) []")
  with collectPools_missing[OF ghost, of "[]"] have e: "e = E_NOT_ALL_POOLS_EXIST" by simp
  show ?thesis
    using run cp e
    by (auto simp: migrationMessage_def newMigration_def sendOrLog_def
          LTFSDM_NOT_ALL_POOLS_EXIST_def split: prod.splits)
qed

theorem migration_unknown_pool_witness:
  "\<not> terminate exServer
   \<and> (\<exists>p \<in> set (getlines [] ''ghost''). getPool exServer p = None)
   \<and> migrationMessage exExt 42 42 7 100 ''ghost'' 0 [(SendObjects 42 [''/m/a'', []], id)]
         exServer exConn
       = ([(SendObjects 42 [''/m/a'', []], id)], exServer,
          exConn\<lparr>nsent := 1, out := [Send (MigRequestResp 1012 7 100)]\<rparr>)"
proof -
  have h1: "\<not> terminate exServer" by (simp add: exServer_def)
  have h2: "\<exists>p \<in> set (getlines [] ''ghost''). getPool exServer p = None"
    using exPools by simp
  have "sendOrLog (MigRequestResp 1012 7 100) exConn
      = exConn\<lparr>nsent := 1, out := [Send (MigRequestResp 1012 7 100)]\<rparr>"
    by (simp add: sendOrLog_def send_def exConn_def)
  with migration_unknown_pool[OF h1 h2, of exExt 42 7 100 0
      "[(SendObjects 42 [''/m/a'', []], id)]" exConn] h1 h2
  show ?thesis by simp
qed

text \<open>
  The claim as stated, for every such request, fails: while the server is
  terminating the response carries the error for that, and a request with another
  key than the server's gets no response at all.
\<close>

theorem migration_unknown_pool_counterexample:
  "migrationMessage exExt 42 42 7 100 ''ghost'' 0 [] (exServer\<lparr>terminate := True\<rparr>) exConn
       = ([], exServer\<lparr>terminate := True\<rparr>,
          exConn\<lparr>nsent := 1, out := [Send (MigRequestResp (LTFSDM_TERMINATING exExt) 7 100)]\<rparr>)
   \<and> LTFSDM_TERMINATING exExt \<noteq> LTFSDM_NOT_ALL_POOLS_EXIST
   \<and> migrationMessage exExt 42 41 7 100 ''ghost'' 0 [] exServer exConn
       = ([], exServer, exConn\<lparr>out := [Msg LTFSDMS0008E [Num 41]]\<rparr>)"
  by (simp add: migrationMessage_def send_def emit_def wrongKey_def exConn_def exServer_def
        exExt_def LTFSDM_NOT_ALL_POOLS_EXIST_def)

text \<open>
  C5. In the loop that receives the objects: when the insertion of a file name
  fails with a primary-key or unique constraint violation (and the server is not
  terminating), the message LTFSDMS0019E with the file name is written and the loop
  goes on with the next file name, the flag \<^verbatim>\<open>cont\<close> unchanged. Every response
  that \<^verbatim>\<open>getObjects\<close> sends is a send-objects response with success true for
  this request number and pid. And a batch received while the server is not
  terminating (and \<^verbatim>\<open>addJob\<close> does not make it so) is answered with such a
  response.
\<close>

theorem getObjects_duplicate:
  "(\<not> terminate s \<and> filename \<noteq> [] \<and> addJob x fopt filename s = (s1, Some (OpenLTFSException e))
      \<and> (e = SQLITE_CONSTRAINT_PRIMARYKEY \<or> e = SQLITE_CONSTRAINT_UNIQUE) \<longrightarrow>
      addJobs x fopt (filename # rest) cont s c
        = addJobs x fopt rest cont s1 (emit (Msg LTFSDMS0019E [Str filename]) c))
   \<and> (getObjects x pid rn fopt ib s c = (ib', s', c') \<longrightarrow>
        (\<exists>n. sent c' = sent c @ replicate n (SendObjectsResp True rn pid)))
   \<and> (\<not> forcedTerminate s \<and> \<not> terminate (env s)
        \<and> (\<forall>f t. \<not> terminate t \<longrightarrow> \<not> terminate (fst (addJob x fopt f t))) \<longrightarrow>
        (\<exists>n. sent (snd (snd (getObjects x pid rn fopt ((SendObjects k filenames, env) # ib) s c)))
               = sent c @ replicate (Suc n) (SendObjectsResp True rn pid)))"
proof (intro conjI impI)
  assume "\<not> terminate s \<and> filename \<noteq> [] \<and> addJob x fopt filename s = (s1, Some (OpenLTFSException e))
      \<and> (e = SQLITE_CONSTRAINT_PRIMARYKEY \<or> e = SQLITE_CONSTRAINT_UNIQUE)"
  then show "addJobs x fopt (filename # rest) cont s c
        = addJobs x fopt rest cont s1 (emit (Msg LTFSDMS0019E [Str filename]) c)"
    by auto
next
  assume "getObjects x pid rn fopt ib s c = (ib', s', c')"
  then show "\<exists>n. sent c' = sent c @ replicate n (SendObjectsResp True rn pid)"
    by (rule getObjects_sent)
next
  assume h: "\<not> forcedTerminate s \<and> \<not> terminate (env s)
        \<and> (\<forall>f t. \<not> terminate t \<longrightarrow> \<not> terminate (fst (addJob x fopt f t)))"
  obtain r cont s1 c1 where aj: "addJobs x fopt filenames True (env s) c = (r, cont, s1, c1)"
    by (cases "addJobs x fopt filenames True (env s) c") auto
  from h addJobs_not_terminating[of x fopt "env s" filenames True c] aj have r: "\<not> r" by auto
  obtain ok c2 where sd: "send (SendObjectsResp True rn pid) c1 = (ok, c2)"
    by (cases "send (SendObjectsResp True rn pid) c1")
  have c2: "sent c2 = sent c @ [SendObjectsResp True rn pid]"
    using addJobs_sent[OF aj] send_sent[OF sd] by simp
  let ?g = "getObjects x pid rn fopt ((SendObjects k filenames, env) # ib) s c"
  show "\<exists>n. sent (snd (snd ?g)) = sent c @ replicate (Suc n) (SendObjectsResp True rn pid)"
  proof (cases "ok \<and> cont")
    case True
    obtain ib2 s2 c3 where g: "getObjects x pid rn fopt ib s1 c2 = (ib2, s2, c3)"
      by (cases "getObjects x pid rn fopt ib s1 c2") auto
    from getObjects_sent[OF g] obtain n where
      "sent c3 = sent c2 @ replicate n (SendObjectsResp True rn pid)" by blast
    moreover from h aj r sd True g have "snd (snd ?g) = c3" by simp
    ultimately show ?thesis using c2 by auto
  next
    case False
    with h aj r sd have "sent (snd (snd ?g)) = sent c2"
      by (auto simp: emit_sent)
    with c2 show ?thesis by (auto intro: exI[of _ 0])
  qed
qed

theorem getObjects_duplicate_witness:
  "addJob exExt (SelRecall 100 7 0) ''/m/a'' exDup
     = (exDup, Some (OpenLTFSException SQLITE_CONSTRAINT_PRIMARYKEY))
   \<and> addJobs exExt (SelRecall 100 7 0) [''/m/a'', []] True exDup exConn
     = (False, False, exDup, exConn\<lparr>out := [Msg LTFSDMS0019E [Str ''/m/a'']]\<rparr>)
   \<and> getObjects exExt 100 7 (SelRecall 100 7 0)
        [(SendObjects 42 [''/m/a''], id), (SendObjects 42 [''/m/a'', []], id)] exServer exConn
     = ([], exDup,
        exConn\<lparr>nsent := 2,
               out := [Send (SendObjectsResp True 7 100), Msg LTFSDMS0019E [Str ''/m/a''],
                       Send (SendObjectsResp True 7 100)]\<rparr>)
   \<and> (\<exists>n. sent (snd (snd (getObjects exExt 100 7 (SelRecall 100 7 0)
        [(SendObjects 42 [''/m/a''], id), (SendObjects 42 [''/m/a'', []], id)] exServer exConn)))
         = replicate (Suc n) (SendObjectsResp True 7 100))"
proof -
  have nt: "\<not> terminate exDup" "\<not> forcedTerminate exDup" "\<not> forcedTerminate exServer"
    "\<not> terminate exServer"
    by (simp_all add: exDup_def exServer_def)
  have aj: "addJob exExt (SelRecall 100 7 0) ''/m/a'' exDup
     = (exDup, Some (OpenLTFSException SQLITE_CONSTRAINT_PRIMARYKEY))"
    by (simp add: exExt_def insertJob_def exDup_def newJob_def)
  have aj0: "addJob exExt (SelRecall 100 7 0) ''/m/a'' exServer = (exDup, None)"
    by (simp add: exExt_def insertJob_def exDup_def exServer_def)
  have c0: "sent exConn = []" by (simp add: sent_def exConn_def)
  note inst = getObjects_duplicate[of exDup "''/m/a''" exExt "SelRecall 100 7 0" exDup
      SQLITE_CONSTRAINT_PRIMARYKEY "[[]]" True exConn 100 7
      "[(SendObjects 42 [''/m/a'', []], id)]" _ _ _ id 42 "[''/m/a'']"]
  from inst nt aj
  have a: "addJobs exExt (SelRecall 100 7 0) [''/m/a'', []] True exDup exConn
     = (False, False, exDup, exConn\<lparr>out := [Msg LTFSDMS0019E [Str ''/m/a'']]\<rparr>)"
    by (simp add: emit_def exConn_def)
  have a': "\<And>c. addJobs exExt (SelRecall 100 7 0) [''/m/a'', []] True exDup c
     = (False, False, exDup, emit (Msg LTFSDMS0019E [Str ''/m/a'']) c)"
    using nt aj by simp
  have b': "\<And>c. addJobs exExt (SelRecall 100 7 0) [''/m/a''] True exServer c
     = (False, True, exDup, c)"
    using nt aj0 by simp
  have g: "getObjects exExt 100 7 (SelRecall 100 7 0)
        [(SendObjects 42 [''/m/a''], id), (SendObjects 42 [''/m/a'', []], id)] exServer exConn
     = ([], exDup,
        exConn\<lparr>nsent := 2,
               out := [Send (SendObjectsResp True 7 100), Msg LTFSDMS0019E [Str ''/m/a''],
                       Send (SendObjectsResp True 7 100)]\<rparr>)"
    using nt by (simp add: a' b' send_def emit_def exConn_def del: addJobs.simps)
  from getObjects_duplicate[of exServer "''/m/a''" exExt "SelRecall 100 7 0" exDup
      SQLITE_CONSTRAINT_PRIMARYKEY "[]" True exConn 100 7
      "[(SendObjects 42 [''/m/a'', []], id)]" _ _ _ id 42 "[''/m/a'']"]
    nt exAddJob_terminate
  have "\<exists>n. sent (snd (snd (getObjects exExt 100 7 (SelRecall 100 7 0)
        [(SendObjects 42 [''/m/a''], id), (SendObjects 42 [''/m/a'', []], id)] exServer exConn)))
         = replicate (Suc n) (SendObjectsResp True 7 100)"
    by (simp add: c0 del: getObjects.simps replicate.simps)
  with aj a g show ?thesis by simp
qed

text \<open>
  C9. With the server's key, each of the five info handlers sends its data rows and
  then one closing row. The data rows of the requests and jobs streams are those of
  the request number of the message as a C \<^verbatim>\<open>int\<close>, or all rows if that is
  \<^verbatim>\<open>Const::UNSET\<close>. The closing row has empty strings and \<^verbatim>\<open>Const::UNSET\<close>
  as its numbers for requests and jobs; for drives, tapes and pools its strings are
  empty and its numbers are 0 (busy is false). For the tapes the fields set are id,
  slot, totalcap, remaincap, status, inprogress and pool.
\<close>

theorem info_streams_end:
  "sent (infoRequestsMessage x key key rn s c)
     = sent c @ map (requestRow x) (selectRows x rn r_reqNum (requestQueue s))
         @ [InfoRequestsResp [] (UNSET x) [] [] []]
   \<and> sent (infoJobsMessage x key key rn s c)
     = sent c @ map (jobRow x) (selectRows x rn j_reqNum (jobQueue s))
         @ [InfoJobsResp [] [] (UNSET x) (UNSET x) (UNSET x) [] []]
   \<and> sent (infoDrivesMessage key key s c)
     = sent c @ map driveRow (invDrives s) @ [InfoDrivesResp [] [] 0 [] False]
   \<and> (\<exists>st. sent (infoTapesMessage x key key s c)
     = sent c @ map (tapeRow x) (invCartridges s) @ [InfoTapesResp [] 0 0 0 [] 0 [] st])
   \<and> sent (infoPoolsMessage key key s c)
     = sent c @ map poolRow (invPools s) @ [InfoPoolsResp [] 0 0 0 0]"
  by (simp add: infoRequestsMessage_def infoJobsMessage_def infoDrivesMessage_def
        infoTapesMessage_def infoPoolsMessage_def sendOrLog_sent sendRows_sent)

theorem info_streams_end_witness:
  "sent (infoRequestsMessage exExt 42 42 (- 1) exRunning exConn)
     = [InfoRequestsResp ''sel. recall'' 5 ''T1'' ''new'' ''in progress'',
        InfoRequestsResp [] (- 1) [] [] []]
   \<and> sent (infoRequestsMessage exExt 42 42 4294967301 exRunning exConn)
     = [InfoRequestsResp ''sel. recall'' 5 ''T1'' ''new'' ''in progress'',
        InfoRequestsResp [] (- 1) [] [] []]
   \<and> sent (infoRequestsMessage exExt 42 42 6 exRunning exConn)
     = [InfoRequestsResp [] (- 1) [] [] []]
   \<and> sent (infoJobsMessage exExt 42 42 5 exRunning exConn)
     = [InfoJobsResp [] [] (- 1) (- 1) (- 1) [] []]
   \<and> sent (infoJobsMessage exExt 42 42 4294967303 exDup exConn)
     = [InfoJobsResp ''sel. recall'' ''/m/a'' 7 0 0 ''-'' ''new'',
        InfoJobsResp [] [] (- 1) (- 1) (- 1) [] []]
   \<and> sent (infoPoolsMessage 42 42 exServer exConn)
     = [InfoPoolsResp ''p1'' 4000000 2500000 0 2, InfoPoolsResp ''p2'' 0 0 0 0,
        InfoPoolsResp ''p3'' 0 0 0 0, InfoPoolsResp ''p4'' 0 0 0 0, InfoPoolsResp [] 0 0 0 0]"
proof -
  have c: "sent exConn = []" by (simp add: sent_def exConn_def)
  from info_streams_end[of exExt 42 "- 1" exRunning exConn]
  have a: "sent (infoRequestsMessage exExt 42 42 (- 1) exRunning exConn)
     = [InfoRequestsResp ''sel. recall'' 5 ''T1'' ''new'' ''in progress'',
        InfoRequestsResp [] (- 1) [] [] []]"
    by (simp add: c selectRows_def narrowInt_def requestRow_def exExt_def exRunning_def
          exServer_def exOpStr_def exStateStr_def)
  from info_streams_end[of exExt 42 4294967301 exRunning exConn]
  have a2: "sent (infoRequestsMessage exExt 42 42 4294967301 exRunning exConn)
     = [InfoRequestsResp ''sel. recall'' 5 ''T1'' ''new'' ''in progress'',
        InfoRequestsResp [] (- 1) [] [] []]"
    by (simp add: c selectRows_def narrowInt_def requestRow_def exExt_def exRunning_def
          exServer_def exOpStr_def exStateStr_def)
  from info_streams_end[of exExt 42 6 exRunning exConn]
  have a3: "sent (infoRequestsMessage exExt 42 42 6 exRunning exConn)
     = [InfoRequestsResp [] (- 1) [] [] []]"
    by (simp add: c selectRows_def narrowInt_def exExt_def exRunning_def exServer_def)
  from info_streams_end[of exExt 42 5 exRunning exConn]
  have b: "sent (infoJobsMessage exExt 42 42 5 exRunning exConn)
     = [InfoJobsResp [] [] (- 1) (- 1) (- 1) [] []]"
    by (simp add: c selectRows_def narrowInt_def exExt_def exRunning_def exServer_def)
  from info_streams_end[of exExt 42 4294967303 exDup exConn]
  have b2: "sent (infoJobsMessage exExt 42 42 4294967303 exDup exConn)
     = [InfoJobsResp ''sel. recall'' ''/m/a'' 7 0 0 ''-'' ''new'',
        InfoJobsResp [] [] (- 1) (- 1) (- 1) [] []]"
    by (simp add: c selectRows_def narrowInt_def jobRow_def newJob_def exExt_def exDup_def
          exServer_def exOpStr_def exStateStr_def)
  from info_streams_end[of exExt 42 5 exServer exConn]
  have d: "sent (infoPoolsMessage 42 42 exServer exConn)
     = [InfoPoolsResp ''p1'' 4000000 2500000 0 2, InfoPoolsResp ''p2'' 0 0 0 0,
        InfoPoolsResp ''p3'' 0 0 0 0, InfoPoolsResp ''p4'' 0 0 0 0, InfoPoolsResp [] 0 0 0 0]"
    by (simp add: c poolRow_def exServer_def exT1_def exT2_def)
  from a a2 a3 b b2 d show ?thesis by simp
qed

text \<open>
  The claim as stated fails: the row that closes the drives stream has the slot 0,
  which is not \<^verbatim>\<open>Const::UNSET\<close> (-1 in the example), and the row that closes
  the tapes stream is never given a state, so that it carries the state of the last
  cartridge listed.
\<close>

theorem info_streams_end_counterexample:
  "sent (infoDrivesMessage 42 42 exServer exConn)
     = [InfoDrivesResp ''D0'' ''/dev/sg3'' 256 ''Available'' False,
        InfoDrivesResp ''D1'' ''/dev/sg4'' 257 ''Available'' False,
        InfoDrivesResp [] [] 0 [] False]
   \<and> UNSET exExt \<noteq> 0
   \<and> sent (infoTapesMessage exExt 42 42 exServer exConn)
     = [InfoTapesResp ''T1'' 256 2000000 1500000 ''Valid LTFS'' 0 ''p1'' ''mounted'',
        InfoTapesResp ''T2'' 1025 2000000 1000000 ''Valid LTFS'' 0 ''p1'' ''unmounted'',
        InfoTapesResp [] 0 0 0 [] 0 [] ''unmounted'']"
proof -
  have c: "sent exConn = []" by (simp add: sent_def exConn_def)
  show ?thesis
    by (simp add: infoDrivesMessage_def infoTapesMessage_def sendOrLog_sent sendRows_sent c
          exServer_def driveRow_def tapeRow_def lastTapeState_def
          exD0_def exD1_def exT1_def exT2_def exExt_def)
qed

end
